theory Spec2Isabelle
  imports Main "HOL-Library.AList"
begin

section \<open>Python values, dictionaries and exceptions\<close>

text \<open>
  The gateway passes small Python dictionaries around (provider responses, stream chunks,
  health results, metadata). A dictionary is an insertion-ordered association list:
  \<open>d.get(k, default)\<close> is \<open>dict_get\<close>, \<open>d[k] = v\<close> is \<open>dict_set\<close> (an existing key keeps
  its position and takes the new value, a new key is appended), as in Python.
\<close>

datatype pyval = VStr string | VInt int | VBool bool | VNone

type_synonym pydict = "(string \<times> pyval) list"

fun truthy :: "pyval \<Rightarrow> bool" where
  "truthy (VStr s) = (s \<noteq> [])"
| "truthy (VInt i) = (i \<noteq> 0)"
| "truthy (VBool b) = b"
| "truthy VNone = False"

definition dict_get :: "pydict \<Rightarrow> string \<Rightarrow> pyval \<Rightarrow> pyval" where
  "dict_get d k dflt = (case map_of d k of None \<Rightarrow> dflt | Some v \<Rightarrow> v)"

definition dict_set :: "pydict \<Rightarrow> string \<Rightarrow> pyval \<Rightarrow> pydict" where
  "dict_set d k v = AList.update k v d"

text \<open>
  Exceptions: the two the router raises itself, and \<open>OtherError\<close> for every other
  subclass of \<open>Exception\<close> a backend, a library or a probe can raise. Each carries the text
  that \<open>str(e)\<close> gives.
\<close>

datatype exn = ValueError string | NoAvailableProviderError string | OtherError string

fun str_exn :: "exn \<Rightarrow> string" where
  "str_exn (ValueError m) = m"
| "str_exn (NoAvailableProviderError m) = m"
| "str_exn (OtherError m) = m"

text \<open>\<open>sep.join(xs)\<close>\<close>

fun join :: "string \<Rightarrow> string list \<Rightarrow> string" where
  "join sep [] = []"
| "join sep [x] = x"
| "join sep (x # y # ys) = x @ sep @ join sep (y # ys)"

section \<open>Providers (core/provider\_manager.py)\<close>

text \<open>
  One entry of \<open>config/providers.yaml\<close>. A field is \<open>None\<close> when the key is missing.
  \<open>enabled\<close> is kept as the raw value, since the code only tests its truth value.
\<close>

record provider_config =
  cfg_name :: "string option"
  cfg_type :: "string option"
  cfg_enabled :: "pyval option"
  cfg_priority :: "int option"
  cfg_model :: "string option"
  cfg_api_key_env :: "string option"
  cfg_base_url_env :: "string option"

text \<open>
  The class of a provider instance with the attributes its constructor sets.
  \<open>OtherProvider\<close> stands for any other subclass of \<open>BaseLLMProvider\<close> (a stub put into
  the registry by hand; \<open>PROVIDER_CLASSES\<close> has none), with the value of its
  \<open>supports_streaming\<close> property, which the base class gives as \<open>False\<close>.
\<close>

datatype backend =
    GeminiProvider (api_key_env_var: string) (api_key: string) (model_name: string)
  | OllamaProvider (base_url_env_var: string) (base_url: string) (model_name: string)
  | OtherProvider (streaming: bool)

record provider =
  name :: string
  config :: provider_config
  backend :: backend

definition enabled :: "provider \<Rightarrow> pyval" where
  "enabled p = (case cfg_enabled (config p) of None \<Rightarrow> VBool True | Some v \<Rightarrow> v)"

fun supports_streaming :: "provider \<Rightarrow> bool" where
  "supports_streaming p =
     (case backend p of
        GeminiProvider _ _ _ \<Rightarrow> True
      | OllamaProvider _ _ _ \<Rightarrow> True
      | OtherProvider s \<Rightarrow> s)"

definition opt_str :: "string option \<Rightarrow> pyval" where
  "opt_str x = (case x of None \<Rightarrow> VNone | Some s \<Rightarrow> VStr s)"

definition opt_int :: "int option \<Rightarrow> pyval" where
  "opt_int x = (case x of None \<Rightarrow> VNone | Some i \<Rightarrow> VInt i)"

definition base_metadata :: "provider \<Rightarrow> pydict" where
  "base_metadata p =
     [(''name'', VStr (name p)),
      (''type'', opt_str (cfg_type (config p))),
      (''priority'', opt_int (cfg_priority (config p))),
      (''enabled'', enabled p)]"

definition metadata :: "provider \<Rightarrow> pydict" where
  "metadata p =
     (case backend p of
        GeminiProvider kv k m \<Rightarrow>
          dict_set (dict_set (base_metadata p) ''model'' (VStr m)) ''api_key_env_var'' (VStr kv)
      | OllamaProvider uv u m \<Rightarrow>
          dict_set (dict_set (dict_set (base_metadata p) ''model'' (VStr m))
            ''base_url_env_var'' (VStr uv)) ''base_url'' (VStr u)
      | OtherProvider s \<Rightarrow> base_metadata p)"

text \<open>
  What the constructors read from outside: the process environment (\<open>os.getenv\<close>) and
  whether \<open>genai.GenerativeModel(model)\<close> raises (\<open>Some e\<close>) or not.
\<close>

record environment =
  getenv :: "string \<Rightarrow> string option"
  generative_model :: "string \<Rightarrow> exn option"

definition get_or :: "'a option \<Rightarrow> 'a \<Rightarrow> 'a" where
  "get_or x dflt = (case x of None \<Rightarrow> dflt | Some v \<Rightarrow> v)"

definition init_gemini :: "environment \<Rightarrow> string \<Rightarrow> provider_config \<Rightarrow> exn + provider" where
  "init_gemini env n c =
     (let key_var = get_or (cfg_api_key_env c) ''GEMINI_API_KEY'';
          key = getenv env key_var
      in if key = None \<or> key = Some [] then Inl (ValueError (''Missing '' @ key_var @ '' for '' @ n))
         else
           let m = get_or (cfg_model c) ''gemini-1.5-flash-latest''
           in case generative_model env m of
                Some e \<Rightarrow>
                  Inl (ValueError (''Failed to initialize Gemini client for '' @ n @ '': '' @ str_exn e))
              | None \<Rightarrow>
                  Inr \<lparr>name = n, config = c, backend = GeminiProvider key_var (the key) m\<rparr>)"

definition init_ollama :: "environment \<Rightarrow> string \<Rightarrow> provider_config \<Rightarrow> exn + provider" where
  "init_ollama env n c =
     (let url_var = get_or (cfg_base_url_env c) ''OLLAMA_API_URL'';
          url = getenv env url_var
      in if url = None \<or> url = Some [] then Inl (ValueError (''Missing '' @ url_var @ '' for '' @ n))
         else Inr \<lparr>name = n, config = c,
                   backend = OllamaProvider url_var (the url) (get_or (cfg_model c) ''llama3'')\<rparr>)"

text \<open>\<open>ProviderManager.PROVIDER_CLASSES\<close>\<close>

definition PROVIDER_CLASSES ::
  "string \<Rightarrow> (environment \<Rightarrow> string \<Rightarrow> provider_config \<Rightarrow> exn + provider) option" where
  "PROVIDER_CLASSES t =
     (if t = ''gemini'' then Some init_gemini
      else if t = ''ollama'' then Some init_ollama
      else None)"

text \<open>
  The registry \<open>ProviderManager.providers\<close>: a dictionary from instance name to instance,
  in insertion order (the order \<open>providers.values()\<close> enumerates).
\<close>

type_synonym registry = "(string \<times> provider) list"

definition get_provider :: "registry \<Rightarrow> string \<Rightarrow> provider option" where
  "get_provider reg n = map_of reg n"

text \<open>
  The parsed \<open>config/providers.yaml\<close>: the file is missing, cannot be parsed, has no
  \<open>providers\<close> key (or is empty), has a \<open>providers\<close> value that is not a list, or has a list
  of entries, each a dictionary or not.
\<close>

datatype yaml_entry = NotADict | Entry provider_config

datatype providers_yaml =
    ProvidersFileNotFound
  | ProvidersLoadError
  | NoProvidersKey
  | ProvidersNotAList
  | ProviderEntries "yaml_entry list"

fun load_entry :: "environment \<Rightarrow> registry \<Rightarrow> yaml_entry \<Rightarrow> registry" where
  "load_entry env reg NotADict = reg"
| "load_entry env reg (Entry c) =
     (case (cfg_name c, cfg_type c) of
        (Some n, Some t) \<Rightarrow>
          if n = [] \<or> t = [] then reg
          else if truthy (get_or (cfg_enabled c) (VBool True)) then
            (case PROVIDER_CLASSES t of
               Some provider_class \<Rightarrow>
                 (case provider_class env n c of
                    Inr p \<Rightarrow> AList.update n p reg
                  | Inl e \<Rightarrow> reg)
             | None \<Rightarrow> reg)
          else reg
      | _ \<Rightarrow> reg)"

definition load_providers :: "environment \<Rightarrow> providers_yaml \<Rightarrow> registry" where
  "load_providers env file =
     (case file of
        ProviderEntries entries \<Rightarrow> foldl (load_entry env) [] entries
      | _ \<Rightarrow> [])"

section \<open>System context (core/system\_context.py)\<close>

text \<open>
  The identity data read once from \<open>config/identity.yaml\<close>; a field is \<open>None\<close> when the key
  is missing. \<open>system_name\<close> has the default \<open>Praximous-Unconfigured\<close>.
\<close>

record identity =
  id_system_name :: "string option"
  id_business_name :: "string option"
  id_industry :: "string option"
  id_persona_style :: "string option"

definition system_name :: "identity \<Rightarrow> string" where
  "system_name ctx = get_or (id_system_name ctx) ''Praximous-Unconfigured''"

definition nonempty :: "string option \<Rightarrow> bool" where
  "nonempty x = (case x of None \<Rightarrow> False | Some s \<Rightarrow> s \<noteq> [])"

definition get_system_prompt :: "identity \<Rightarrow> string \<Rightarrow> string" where
  "get_system_prompt ctx user_prompt =
     (if system_name ctx \<noteq> [] \<and> nonempty (id_business_name ctx) \<and> nonempty (id_industry ctx)
      then
        let persona = (if nonempty (id_persona_style ctx) then the (id_persona_style ctx)
                       else ''a helpful AI assistant'')
        in ''You are '' @ system_name ctx @ '', a specialized AI for ''
             @ the (id_business_name ctx) @ '', which operates in the ''
             @ the (id_industry ctx) @ '' industry. Your persona should be: '' @ persona
             @ ''. Given the user's request, provide a response.'' @ [CHR 0x0A, CHR 0x0A]
             @ ''---'' @ [CHR 0x0A, CHR 0x0A] @ ''User Request: '' @ user_prompt
      else user_prompt)"

section \<open>Routing rules and the call trace (core/model\_router.py)\<close>

text \<open>
  The parsed \<open>config/routing.yaml\<close>: the file is missing, cannot be loaded, is empty, or
  is a document with or without a \<open>routing_rules\<close> key.
\<close>

datatype routing_yaml =
    RoutingFileNotFound
  | RoutingLoadError
  | RoutingEmpty
  | RoutingDocument "(string \<rightharpoonup> string list) option"

definition default_rules :: "string \<rightharpoonup> string list" where
  "default_rules = [''__default__'' \<mapsto> [''gemini-primary'', ''ollama-failover'']]"

definition load_routing_rules :: "routing_yaml \<Rightarrow> (string \<rightharpoonup> string list)" where
  "load_routing_rules file =
     (case file of
        RoutingDocument (Some rules) \<Rightarrow> rules
      | _ \<Rightarrow> default_rules)"

text \<open>\<open>self.routing_rules.get(task_type, self.routing_rules.get("__default__"))\<close>\<close>

definition provider_sequence :: "(string \<rightharpoonup> string list) \<Rightarrow> string \<Rightarrow> string list option" where
  "provider_sequence rules task_type =
     (case rules task_type of Some s \<Rightarrow> Some s | None \<Rightarrow> rules ''__default__'')"

text \<open>
  The calls a request makes to its collaborators, in the order they happen: the prompt
  decoration hook with the raw prompt, a provider's \<open>generate_async\<close> or
  \<open>generate_stream_async\<close> with the provider's name and the prompt it is given, a chunk
  handed to the caller of the stream, and a health probe.
\<close>

datatype event =
    GetSystemPrompt string
  | GenerateAsync string string
  | GenerateStreamAsync string string
  | Yield pydict
  | CheckHealth string

text \<open>
  The backends are outside the program. Within one request, what a provider's
  \<open>generate_async\<close> does is given by the provider and the prompt: it raises (\<open>Inl\<close>) or
  returns a response dictionary (\<open>Inr\<close>).
\<close>

type_synonym generate = "provider \<Rightarrow> string \<Rightarrow> exn + pydict"

definition providers_to_try :: "registry \<Rightarrow> string list \<Rightarrow> provider list" where
  "providers_to_try reg provider_seq =
     [the (get_provider reg n). n \<leftarrow> provider_seq,
        get_provider reg n \<noteq> None \<and> truthy (enabled (the (get_provider reg n)))]"

text \<open>The failover loop of \<open>route_request\<close>, with the list \<open>errors\<close> it accumulates.\<close>

fun try_providers ::
  "identity \<Rightarrow> generate \<Rightarrow> string \<Rightarrow> provider list \<Rightarrow> string list \<Rightarrow> event list \<times> (exn + pydict)" where
  "try_providers ctx gen prompt [] errors =
     ([], Inl (NoAvailableProviderError (''All providers failed. Errors: '' @ join ''; '' errors)))"
| "try_providers ctx gen prompt (p # ps) errors =
     (let full_prompt = get_system_prompt ctx prompt;
          calls = [GetSystemPrompt prompt, GenerateAsync (name p) full_prompt]
      in case gen p full_prompt of
           Inr response \<Rightarrow> (calls, Inr (dict_set response ''provider'' (VStr (name p))))
         | Inl e \<Rightarrow>
             (let (tr, res) = try_providers ctx gen prompt ps (errors @ [name p @ '': '' @ str_exn e])
              in (calls @ tr, res)))"

definition route_request ::
  "(string \<rightharpoonup> string list) \<Rightarrow> registry \<Rightarrow> identity \<Rightarrow> generate \<Rightarrow> string \<Rightarrow> string
     \<Rightarrow> event list \<times> (exn + pydict)" where
  "route_request rules reg ctx gen prompt task_type =
     (case provider_sequence rules task_type of
        None \<Rightarrow> ([], Inl (ValueError (''Task type '' @ [CHR 0x27] @ task_type @ [CHR 0x27]
                                      @ '' is not a routable LLM task.'')))
      | Some provider_seq \<Rightarrow>
          if provider_seq = [] then
            ([], Inl (ValueError (''Task type '' @ [CHR 0x27] @ task_type @ [CHR 0x27]
                                  @ '' is not a routable LLM task.'')))
          else if providers_to_try reg provider_seq = [] then
            ([], Inl (NoAvailableProviderError
               ''No enabled LLM providers found in configuration for the requested task.''))
          else try_providers ctx gen prompt (providers_to_try reg provider_seq) [])"

text \<open>
  A provider's \<open>generate_stream_async\<close>: the chunks it yields, then it ends (\<open>None\<close>) or
  raises (\<open>Some e\<close>).
\<close>

type_synonym generate_stream = "provider \<Rightarrow> string \<Rightarrow> pydict list \<times> exn option"

definition streaming_providers_to_try :: "registry \<Rightarrow> string list \<Rightarrow> provider list" where
  "streaming_providers_to_try reg provider_seq =
     [p. p \<leftarrow> [the (get_provider reg n). n \<leftarrow> provider_seq, get_provider reg n \<noteq> None],
        truthy (enabled p) \<and> supports_streaming p]"

text \<open>
  The failover loop of \<open>route_request_stream\<close>, for a caller that consumes the whole
  generator. The second component is \<open>None\<close> when the generator ends and \<open>Some e\<close> when it
  raises \<open>e\<close>.
\<close>

fun stream_providers ::
  "identity \<Rightarrow> generate_stream \<Rightarrow> string \<Rightarrow> provider list \<Rightarrow> string list \<Rightarrow> event list \<times> exn option" where
  "stream_providers ctx gen_stream prompt [] errors =
     ([], Some (NoAvailableProviderError
        (''All streaming providers failed. Errors: '' @ join ''; '' errors)))"
| "stream_providers ctx gen_stream prompt (p # ps) errors =
     (let full_prompt = get_system_prompt ctx prompt;
          calls = [GetSystemPrompt prompt, GenerateStreamAsync (name p) full_prompt];
          (chunks, raised) = gen_stream p full_prompt;
          yields = map (\<lambda>chunk. Yield (dict_set chunk ''provider'' (VStr (name p)))) chunks
      in case raised of
           None \<Rightarrow> (calls @ yields, None)
         | Some e \<Rightarrow>
             (let (tr, res) =
                    stream_providers ctx gen_stream prompt ps (errors @ [name p @ '': '' @ str_exn e])
              in (calls @ yields @ tr, res)))"

definition route_request_stream ::
  "(string \<rightharpoonup> string list) \<Rightarrow> registry \<Rightarrow> identity \<Rightarrow> generate_stream \<Rightarrow> string \<Rightarrow> string
     \<Rightarrow> event list \<times> exn option" where
  "route_request_stream rules reg ctx gen_stream prompt task_type =
     (case provider_sequence rules task_type of
        None \<Rightarrow> ([], Some (ValueError (''Task type '' @ [CHR 0x27] @ task_type @ [CHR 0x27]
                                       @ '' is not a routable LLM task.'')))
      | Some provider_seq \<Rightarrow>
          if provider_seq = [] then
            ([], Some (ValueError (''Task type '' @ [CHR 0x27] @ task_type @ [CHR 0x27]
                                   @ '' is not a routable LLM task.'')))
          else if streaming_providers_to_try reg provider_seq = [] then
            ([], Some (NoAvailableProviderError
               ''No enabled, streaming-capable LLM providers found.''))
          else stream_providers ctx gen_stream prompt (streaming_providers_to_try reg provider_seq) [])"

text \<open>The names of the providers a trace invokes, in order.\<close>

fun invoked :: "event list \<Rightarrow> string list" where
  "invoked [] = []"
| "invoked (GenerateAsync n q # tr) = n # invoked tr"
| "invoked (GenerateStreamAsync n q # tr) = n # invoked tr"
| "invoked (e # tr) = invoked tr"

section \<open>Health aggregation (ModelRouter.get\_provider\_statuses)\<close>

text \<open>
  What a provider's \<open>check_health\<close> can hand back: a dictionary, an exception instance, or
  any other value. The probe itself is outside the program: it raises (\<open>Inl\<close>) or returns.
\<close>

datatype health_value = HDict pydict | HExc exn | HOther

type_synonym check_health = "provider \<Rightarrow> exn + health_value"

definition safe_check :: "check_health \<Rightarrow> provider \<Rightarrow> health_value" where
  "safe_check probe p = (case probe p of Inr v \<Rightarrow> v | Inl e \<Rightarrow> HExc e)"

record status_record =
  rec_name :: string
  status :: pyval
  details :: pyval
  timestamp :: string
  rec_metadata :: pydict

record summary =
  total_providers :: nat
  enabled_count :: nat
  disabled_count :: nat
  errors :: nat

text \<open>
  The record of an enabled provider from the result of its probe. \<open>now k\<close> is the \<open>k\<close>-th
  reading of the clock during the call.
\<close>

definition enabled_record :: "(nat \<Rightarrow> string) \<Rightarrow> nat \<Rightarrow> provider \<Rightarrow> health_value \<Rightarrow> status_record" where
  "enabled_record now i p result =
     (let status_record = \<lparr>rec_name = name p, status = VStr ''Unknown'',
            details = VStr ''Health check did not return a valid status.'',
            timestamp = now i, rec_metadata = metadata p\<rparr>
      in case result of
           HExc e \<Rightarrow> status_record\<lparr>status := VStr ''Error'',
                       details := VStr (''Health check failed: '' @ str_exn e)\<rparr>
         | HDict d \<Rightarrow> status_record\<lparr>status := dict_get d ''status'' (VStr ''Unknown''),
                       details := dict_get d ''details'' (VStr [])\<rparr>
         | HOther \<Rightarrow> status_record)"

definition disabled_record :: "(nat \<Rightarrow> string) \<Rightarrow> nat \<Rightarrow> provider \<Rightarrow> status_record" where
  "disabled_record now k p =
     \<lparr>rec_name = name p, status = VStr ''Disabled'',
      details = VStr ''Provider is disabled in configuration.'',
      timestamp = now k, rec_metadata = metadata p\<rparr>"

definition get_provider_statuses ::
  "registry \<Rightarrow> check_health \<Rightarrow> (nat \<Rightarrow> string) \<Rightarrow> event list \<times> summary \<times> status_record list" where
  "get_provider_statuses reg probe now =
     (let enabled_providers = [p \<leftarrow> map snd reg. truthy (enabled p)];
          disabled_providers = [p \<leftarrow> map snd reg. \<not> truthy (enabled p)];
          results = map (safe_check probe) enabled_providers;
          probes = map (\<lambda>p. CheckHealth (name p)) enabled_providers;
          checked = (if enabled_providers \<noteq> []
                     then map (\<lambda>(i, p). enabled_record now i p (results ! i))
                            (enumerate 0 enabled_providers)
                     else []);
          provider_statuses = checked @
            map (\<lambda>(k, p). disabled_record now k p)
              (enumerate (length checked) disabled_providers);
          summary = \<lparr>total_providers = length reg,
                     enabled_count = length enabled_providers,
                     disabled_count = length disabled_providers,
                     errors = length [s \<leftarrow> provider_statuses. status s = VStr ''Error'']\<rparr>
      in (probes, summary, provider_statuses))"

text \<open>The status domain of the specification.\<close>

definition status_domain :: "pyval set" where
  "status_domain =
     {VStr ''Active'', VStr ''Offline'', VStr ''Error'', VStr ''Disabled'', VStr ''Unknown''}"

section \<open>The streams of the two concrete providers\<close>

text \<open>
  What iterating a backend's response does: it delivers an item and goes on, ends, or
  raises. A call that raises before any item is \<open>Fail\<close> at the head.
\<close>

datatype 'a source = End | Fail exn | Item 'a "'a source"

fun source_items :: "'a source \<Rightarrow> 'a list" where
  "source_items End = []"
| "source_items (Fail e) = []"
| "source_items (Item x s) = x # source_items s"

fun source_failure :: "'a source \<Rightarrow> exn option" where
  "source_failure End = None"
| "source_failure (Fail e) = Some e"
| "source_failure (Item x s) = source_failure s"

definition stream_chunk :: "pyval \<Rightarrow> pydict" where
  "stream_chunk token = [(''type'', VStr ''stream_chunk''), (''token'', token)]"

definition error_chunk :: "provider \<Rightarrow> exn \<Rightarrow> pydict" where
  "error_chunk p e =
     [(''type'', VStr ''error''), (''detail'', VStr (''Error from '' @ name p @ '': '' @ str_exn e))]"

definition is_error_chunk :: "pydict \<Rightarrow> bool" where
  "is_error_chunk c = (dict_get c ''type'' VNone = VStr ''error'')"

text \<open>\<open>GeminiProvider.generate_stream_async\<close> over the texts of the backend's chunks.\<close>

fun gemini_generate_stream_async :: "provider \<Rightarrow> string source \<Rightarrow> pydict list \<times> exn option" where
  "gemini_generate_stream_async p End = ([], None)"
| "gemini_generate_stream_async p (Fail e) = ([error_chunk p e], None)"
| "gemini_generate_stream_async p (Item text s) =
     (let (chunks, raised) = gemini_generate_stream_async p s
      in (stream_chunk (VStr text) # chunks, raised))"

text \<open>
  A line of Ollama's response as \<open>json.loads\<close> sees it: empty, not JSON, a JSON object, or
  JSON of another type, on which \<open>chunk_data.get\<close> raises an \<open>AttributeError\<close> with the given
  text.
\<close>

datatype json_line = Blank | Invalid | Object pydict | NonObject string

fun ollama_generate_stream_async :: "provider \<Rightarrow> json_line source \<Rightarrow> pydict list \<times> exn option" where
  "ollama_generate_stream_async p End = ([], None)"
| "ollama_generate_stream_async p (Fail e) = ([error_chunk p e], None)"
| "ollama_generate_stream_async p (Item Blank s) = ollama_generate_stream_async p s"
| "ollama_generate_stream_async p (Item Invalid s) = ollama_generate_stream_async p s"
| "ollama_generate_stream_async p (Item (Object chunk_data) s) =
     (let token = dict_get chunk_data ''response'' (VStr []);
          (chunks, raised) = ollama_generate_stream_async p s
      in if truthy token then (stream_chunk token # chunks, raised) else (chunks, raised))"
| "ollama_generate_stream_async p (Item (NonObject msg) s) =
     ([error_chunk p (OtherError msg)], None)"

text \<open>
  The call \<open>provider.generate_stream_async(prompt=full_prompt)\<close> of the router dispatches
  on the class of the instance. The backends are outside the program: \<open>gemini_backend\<close> and
  \<open>ollama_backend\<close> give what the backend of a provider delivers for a prompt, and
  \<open>other\<close> is the generator of any other subclass.
\<close>

definition generate_stream_async ::
  "(provider \<Rightarrow> string \<Rightarrow> string source) \<Rightarrow> (provider \<Rightarrow> string \<Rightarrow> json_line source)
     \<Rightarrow> generate_stream \<Rightarrow> generate_stream" where
  "generate_stream_async gemini_backend ollama_backend other p prompt =
     (case backend p of
        GeminiProvider kv k m \<Rightarrow> gemini_generate_stream_async p (gemini_backend p prompt)
      | OllamaProvider uv u m \<Rightarrow> ollama_generate_stream_async p (ollama_backend p prompt)
      | OtherProvider s \<Rightarrow> other p prompt)"

section \<open>A small configuration\<close>

text \<open>
  The end-to-end scenario of the specification: two stub providers \<open>p1\<close> and \<open>p2\<close>, the
  task \<open>summarize\<close> routed to \<open>p1\<close> then \<open>p2\<close>, the default entry to \<open>p2\<close> alone; \<open>p1\<close> always
  fails and \<open>p2\<close> answers \<open>OK\<close> (with a \<open>provider\<close> field of its own).
\<close>

definition stub :: "string \<Rightarrow> pyval option \<Rightarrow> provider" where
  "stub n en =
     \<lparr>name = n,
      config = \<lparr>cfg_name = Some n, cfg_type = Some ''stub'', cfg_enabled = en,
                cfg_priority = None, cfg_model = None, cfg_api_key_env = None,
                cfg_base_url_env = None\<rparr>,
      backend = OtherProvider True\<rparr>"

definition scenario_registry :: registry where
  "scenario_registry = [(''p1'', stub ''p1'' None), (''p2'', stub ''p2'' (Some (VBool True)))]"

definition scenario_rules :: "string \<rightharpoonup> string list" where
  "scenario_rules = [''summarize'' \<mapsto> [''p1'', ''p2''], ''__default__'' \<mapsto> [''p2'']]"

definition scenario_identity :: identity where
  "scenario_identity =
     \<lparr>id_system_name = None, id_business_name = None, id_industry = None,
      id_persona_style = None\<rparr>"

definition scenario_generate :: generate where
  "scenario_generate p prompt =
     (if name p = ''p1'' then Inl (OtherError ''timeout'')
      else Inr [(''provider'', VStr ''backend''), (''text'', VStr ''OK'')])"

text \<open>A backend behaviour in which every provider is down.\<close>

definition failing_generate :: generate where
  "failing_generate p prompt = Inl (OtherError (''down '' @ name p))"

text \<open>
  A streaming behaviour for the scenario: the stream of \<open>p1\<close> yields one chunk and then
  raises, the stream of \<open>p2\<close> yields one chunk and ends.
\<close>

definition scenario_stream :: generate_stream where
  "scenario_stream p prompt =
     (if name p = ''p1'' then ([stream_chunk (VStr ''a'')], Some (OtherError ''reset''))
      else ([stream_chunk (VStr ''b'')], None))"

text \<open>A trace without the chunks handed to the caller.\<close>

fun calls_only :: "event list \<Rightarrow> event list" where
  "calls_only [] = []"
| "calls_only (Yield c # tr) = calls_only tr"
| "calls_only (e # tr) = e # calls_only tr"

text \<open>
  The health scenario of the specification: three enabled providers, of which the probe
  of \<open>b\<close> raises and the two others report \<open>Active\<close>; and probes that return no
  dictionary (for \<open>a\<close>), a dictionary without a status (for \<open>b\<close>), a status of their own
  invention (for \<open>c\<close>) and \<open>Offline\<close> (for any other).
\<close>

definition health_registry :: registry where
  "health_registry = [(''a'', stub ''a'' None), (''b'', stub ''b'' None), (''c'', stub ''c'' None)]"

definition health_probe :: check_health where
  "health_probe p =
     (if name p = ''b'' then Inl (OtherError ''boom'')
      else Inr (HDict [(''status'', VStr ''Active''), (''details'', VStr ''ok'')]))"

definition malformed_probe :: check_health where
  "malformed_probe p =
     (if name p = ''a'' then Inr HOther
      else if name p = ''b'' then Inr (HDict [(''details'', VStr ''no status here'')])
      else if name p = ''c'' then Inr (HDict [(''status'', VStr ''Degraded'')])
      else Inr (HDict [(''status'', VStr ''Offline''), (''details'', VStr ''unreachable'')]))"

text \<open>
  A registry with the three providers above, a fourth enabled one (whose probe reports
  \<open>Offline\<close>) and a disabled one, as a registry filled by hand can have it.
\<close>

definition mixed_registry :: registry where
  "mixed_registry =
     health_registry @ [(''d'', stub ''d'' None), (''e'', stub ''e'' (Some (VBool False)))]"

definition clock :: "nat \<Rightarrow> string" where
  "clock k = replicate k CHR ''+''"

text \<open>
  A \<open>providers.yaml\<close> with an enabled Gemini entry and an Ollama entry with
  \<open>enabled: false\<close>, in an environment that has the Gemini key.
\<close>

definition example_environment :: environment where
  "example_environment =
     \<lparr>getenv = [''GEMINI_API_KEY'' \<mapsto> ''secret''], generative_model = (\<lambda>m. None)\<rparr>"

definition gemini_entry :: provider_config where
  "gemini_entry =
     \<lparr>cfg_name = Some ''gemini-primary'', cfg_type = Some ''gemini'', cfg_enabled = None,
      cfg_priority = Some 1, cfg_model = None, cfg_api_key_env = None, cfg_base_url_env = None\<rparr>"

definition ollama_entry :: provider_config where
  "ollama_entry =
     \<lparr>cfg_name = Some ''ollama-failover'', cfg_type = Some ''ollama'',
      cfg_enabled = Some (VBool False), cfg_priority = Some 2, cfg_model = None,
      cfg_api_key_env = None, cfg_base_url_env = None\<rparr>"

definition example_providers_yaml :: providers_yaml where
  "example_providers_yaml = ProviderEntries [Entry gemini_entry, Entry ollama_entry]"

text \<open>
  What holds of every entry of a registry that \<open>load_providers\<close> has built: the instance is
  stored under its own name and it is enabled.
\<close>

definition loaded_ok :: "string \<times> provider \<Rightarrow> bool" where
  "loaded_ok kp = (name (snd kp) = fst kp \<and> truthy (enabled (snd kp)))"

text \<open>
  Two backend responses that break off: Gemini delivers two texts and then fails; Ollama
  delivers a token, an empty line, a line that is not JSON and an object with an empty
  token, and then the connection is reset.
\<close>

definition gemini_response :: "string source" where
  "gemini_response = Item ''Hel'' (Item ''lo'' (Fail (OtherError ''quota exceeded'')))"

definition ollama_response :: "json_line source" where
  "ollama_response =
     Item (Object [(''response'', VStr ''Hi'')])
       (Item Blank (Item Invalid (Item (Object [(''response'', VStr [])])
          (Fail (OtherError ''connection reset'')))))"

text \<open>
  A registry in which the routing order, the priorities and the enabled flags disagree:
  \<open>p0\<close> has the best priority but is disabled, \<open>p1\<close> has a worse priority than \<open>p2\<close>; the
  routing entry lists \<open>p0\<close>, an unregistered name, \<open>p1\<close> and \<open>p2\<close>, and a third enabled
  provider \<open>p3\<close> after them.
\<close>

definition stub_priority :: "string \<Rightarrow> pyval option \<Rightarrow> int \<Rightarrow> provider" where
  "stub_priority n en pr = (stub n en)\<lparr>config := (config (stub n en))\<lparr>cfg_priority := Some pr\<rparr>\<rparr>"

definition ordered_registry :: registry where
  "ordered_registry =
     [(''p3'', stub_priority ''p3'' None 3),
      (''p2'', stub_priority ''p2'' None 1),
      (''p1'', stub_priority ''p1'' (Some (VBool True)) 5),
      (''p0'', stub_priority ''p0'' (Some (VBool False)) 0)]"

definition ordered_rules :: "string \<rightharpoonup> string list" where
  "ordered_rules = [''summarize'' \<mapsto> [''p0'', ''ghost'', ''p1'', ''p2'', ''p3'']]"

text \<open>
  The two shipped providers, both enabled and loaded from \<open>providers.yaml\<close>, with the
  hard-coded routing table; the Gemini backend refuses the request before any chunk and the
  Ollama backend would answer.
\<close>

definition shipped_environment :: environment where
  "shipped_environment =
     \<lparr>getenv = [''GEMINI_API_KEY'' \<mapsto> ''secret'', ''OLLAMA_API_URL'' \<mapsto> ''http://localhost:11434''],
      generative_model = (\<lambda>m. None)\<rparr>"

definition ollama_enabled_entry :: provider_config where
  "ollama_enabled_entry =
     \<lparr>cfg_name = Some ''ollama-failover'', cfg_type = Some ''ollama'',
      cfg_enabled = Some (VBool True), cfg_priority = Some 2, cfg_model = None,
      cfg_api_key_env = None, cfg_base_url_env = None\<rparr>"

definition shipped_providers_yaml :: providers_yaml where
  "shipped_providers_yaml = ProviderEntries [Entry gemini_entry, Entry ollama_enabled_entry]"

definition gemini_down :: "provider \<Rightarrow> string \<Rightarrow> string source" where
  "gemini_down p prompt = Fail (OtherError ''503 unavailable'')"

definition ollama_up :: "provider \<Rightarrow> string \<Rightarrow> json_line source" where
  "ollama_up p prompt = Item (Object [(''response'', VStr ''Hi'')]) End"

definition no_other :: generate_stream where
  "no_other p prompt = ([], None)"

text \<open>The class of an instance is one of the two that \<open>PROVIDER_CLASSES\<close> names.\<close>

definition shipped_class :: "provider \<Rightarrow> bool" where
  "shipped_class p = (case backend p of OtherProvider s \<Rightarrow> False | _ \<Rightarrow> True)"

section \<open>The failover loop of route\_request\<close>

lemma try_providers_all_fail:
  "\<forall>p\<in>set ps. isl (gen p (get_system_prompt ctx prompt)) \<Longrightarrow>
   try_providers ctx gen prompt ps errs =
     (concat (map (\<lambda>p. [GetSystemPrompt prompt,
                          GenerateAsync (name p) (get_system_prompt ctx prompt)]) ps),
      Inl (NoAvailableProviderError (''All providers failed. Errors: '' @ join ''; ''
        (errs @ map (\<lambda>p. name p @ '': '' @ str_exn (projl (gen p (get_system_prompt ctx prompt)))) ps))))"
proof (induction ps arbitrary: errs)
  case Nil
  then show ?case by simp
next
  case (Cons p ps)
  then obtain e where e: "gen p (get_system_prompt ctx prompt) = Inl e"
    by (cases "gen p (get_system_prompt ctx prompt)") auto
  from Cons.prems have rest: "\<forall>q\<in>set ps. isl (gen q (get_system_prompt ctx prompt))" by simp
  show ?case
    using e Cons.IH [OF rest, of "errs @ [name p @ '': '' @ str_exn e]"]
    by (simp add: Let_def)
qed

lemma try_providers_first_success:
  "\<forall>q\<in>set fs. isl (gen q (get_system_prompt ctx prompt)) \<Longrightarrow>
   gen p (get_system_prompt ctx prompt) = Inr response \<Longrightarrow>
   try_providers ctx gen prompt (fs @ p # rest) errs =
     (concat (map (\<lambda>p. [GetSystemPrompt prompt,
                          GenerateAsync (name p) (get_system_prompt ctx prompt)]) (fs @ [p])),
      Inr (dict_set response ''provider'' (VStr (name p))))"
proof (induction fs arbitrary: errs)
  case Nil
  then show ?case by (simp add: Let_def)
next
  case (Cons f fs)
  then obtain e where e: "gen f (get_system_prompt ctx prompt) = Inl e"
    by (cases "gen f (get_system_prompt ctx prompt)") auto
  from Cons.prems have rest: "\<forall>q\<in>set fs. isl (gen q (get_system_prompt ctx prompt))" by simp
  show ?case
    using e Cons.IH [OF rest Cons.prems(2), of "errs @ [name f @ '': '' @ str_exn e]"]
    by (simp add: Let_def)
qed

lemma invoked_append: "invoked (xs @ ys) = invoked xs @ invoked ys"
  by (induction xs rule: invoked.induct) auto

lemma invoked_calls:
  "invoked (concat (map (\<lambda>p. [GetSystemPrompt prompt, GenerateAsync (name p) fp]) ps)) = map name ps"
  by (induction ps) auto

lemma provider_sequence_explicit:
  "rules task_type = Some s \<Longrightarrow> provider_sequence rules task_type = Some s"
  by (simp add: provider_sequence_def)

lemma providers_to_try_Nil [simp]: "providers_to_try reg [] = []"
  by (simp add: providers_to_try_def)

lemma route_request_candidates:
  "provider_sequence rules task_type = Some provider_seq \<Longrightarrow>
   providers_to_try reg provider_seq \<noteq> [] \<Longrightarrow>
   route_request rules reg ctx gen prompt task_type =
     try_providers ctx gen prompt (providers_to_try reg provider_seq) []"
  by (auto simp: route_request_def)

lemma route_request_first_success:
  assumes "rules task_type = Some provider_seq"
    and "providers_to_try reg provider_seq = fs @ p # rest"
    and "\<forall>q\<in>set fs. isl (gen q (get_system_prompt ctx prompt))"
    and "gen p (get_system_prompt ctx prompt) = Inr response"
  shows "route_request rules reg ctx gen prompt task_type =
           (concat (map (\<lambda>q. [GetSystemPrompt prompt,
                                GenerateAsync (name q) (get_system_prompt ctx prompt)]) (fs @ [p])),
            Inr (dict_set response ''provider'' (VStr (name p))))
         \<and> invoked (fst (route_request rules reg ctx gen prompt task_type)) = map name fs @ [name p]"
proof -
  have seq: "provider_sequence rules task_type = Some provider_seq"
    using assms(1) by (rule provider_sequence_explicit)
  have ne: "providers_to_try reg provider_seq \<noteq> []"
    using assms(2) by simp
  have run: "route_request rules reg ctx gen prompt task_type =
           (concat (map (\<lambda>q. [GetSystemPrompt prompt,
                                GenerateAsync (name q) (get_system_prompt ctx prompt)]) (fs @ [p])),
            Inr (dict_set response ''provider'' (VStr (name p))))"
    using route_request_candidates [OF seq ne, of ctx gen prompt] assms(2-4)
      try_providers_first_success [where fs = fs and gen = gen and ctx = ctx and prompt = prompt
        and p = p and response = response and rest = rest and errs = "[]"]
    by simp
  have "invoked (fst (route_request rules reg ctx gen prompt task_type)) = map name (fs @ [p])"
    unfolding run fst_conv by (rule invoked_calls)
  with run show ?thesis by simp
qed

lemmas scenario_defs = scenario_rules_def scenario_registry_def scenario_generate_def
  scenario_identity_def stub_def providers_to_try_def get_provider_def enabled_def
  get_system_prompt_def nonempty_def system_name_def get_or_def

lemma providers_to_try_filter:
  "providers_to_try reg provider_seq =
     map (\<lambda>n. the (get_provider reg n))
       [n \<leftarrow> provider_seq.
          case get_provider reg n of None \<Rightarrow> False
          | Some p \<Rightarrow> truthy (get_or (cfg_enabled (config p)) (VBool True))]"
  by (induction provider_seq)
     (auto simp: providers_to_try_def enabled_def get_or_def split: option.splits)

lemma registered_name:
  assumes "list_all (\<lambda>(k, p). name p = k) reg" and "get_provider reg n = Some p"
  shows "name p = n"
proof -
  from assms(2) have "(n, p) \<in> set reg"
    by (simp add: get_provider_def map_of_SomeD)
  with assms(1) show ?thesis by (auto simp: list_all_iff)
qed

lemma candidate_names:
  assumes "list_all (\<lambda>(k, p). name p = k) reg"
  shows "map name (providers_to_try reg provider_seq) =
     [n \<leftarrow> provider_seq.
        case get_provider reg n of None \<Rightarrow> False
        | Some p \<Rightarrow> truthy (get_or (cfg_enabled (config p)) (VBool True))]"
proof -
  have "map (name \<circ> (\<lambda>n. the (get_provider reg n))) xs = xs"
    if "\<forall>n\<in>set xs. get_provider reg n \<noteq> None" for xs
    using that
  proof (induction xs)
    case Nil
    then show ?case by simp
  next
    case (Cons x xs)
    then obtain p where p: "get_provider reg x = Some p" by auto
    from registered_name [OF assms p] p Cons show ?case by simp
  qed
  then show ?thesis
    unfolding providers_to_try_filter map_map
    by (auto split: option.splits)
qed

text \<open>
  Claim C1. For a task type with an explicit routing entry, the candidates are the names of
  the entry that are registered and whose configuration has a true \<open>enabled\<close> value (by
  default true), in the order of the entry; priorities play no part. When the candidates
  before \<open>n\<close> all fail and \<open>n\<close> is the first whose \<open>generate_async\<close> succeeds,
  \<open>route_request\<close> calls exactly those candidates and then \<open>n\<close>, in that order, and returns
  the response of \<open>n\<close> with its \<open>provider\<close> field set to \<open>n\<close>; no candidate after \<open>n\<close> is
  invoked.
\<close>

theorem route_request_first_success_wins:
  assumes "list_all (\<lambda>(k, p). name p = k) reg"
    and "rules task_type = Some provider_seq"
    and "[m \<leftarrow> provider_seq.
            case get_provider reg m of None \<Rightarrow> False
            | Some p \<Rightarrow> truthy (get_or (cfg_enabled (config p)) (VBool True))] = ns @ n # rest"
    and "\<forall>m\<in>set ns. isl (gen (the (get_provider reg m)) (get_system_prompt ctx prompt))"
    and "gen (the (get_provider reg n)) (get_system_prompt ctx prompt) = Inr response"
  shows "route_request rules reg ctx gen prompt task_type =
           (concat (map (\<lambda>m. [GetSystemPrompt prompt,
                                GenerateAsync m (get_system_prompt ctx prompt)]) (ns @ [n])),
            Inr (dict_set response ''provider'' (VStr n)))
         \<and> invoked (fst (route_request rules reg ctx gen prompt task_type)) = ns @ [n]"
proof -
  let ?g = "\<lambda>m. the (get_provider reg m)"
  let ?fp = "get_system_prompt ctx prompt"
  have cands: "providers_to_try reg provider_seq = map ?g ns @ ?g n # map ?g rest"
    unfolding providers_to_try_filter assms(3) by simp
  have names: "map name (providers_to_try reg provider_seq) = ns @ n # rest"
    using candidate_names [OF assms(1), of provider_seq] assms(3) by simp
  from names cands have nm: "map (\<lambda>m. name (?g m)) ns = ns" "name (?g n) = n"
    by (simp_all add: comp_def)
  have fails: "\<forall>q\<in>set (map ?g ns). isl (gen q ?fp)"
    using assms(4) by simp
  have run: "route_request rules reg ctx gen prompt task_type =
      (concat (map (\<lambda>q. [GetSystemPrompt prompt, GenerateAsync (name q) ?fp]) (map ?g ns @ [?g n])),
       Inr (dict_set response ''provider'' (VStr (name (?g n)))))"
    using route_request_first_success [where rules = rules and task_type = task_type
        and provider_seq = provider_seq and reg = reg and fs = "map ?g ns" and p = "?g n"
        and rest = "map ?g rest" and gen = gen and ctx = ctx and prompt = prompt
        and response = response, OF assms(2) cands fails assms(5)]
    by blast
  have tr: "concat (map (\<lambda>q. [GetSystemPrompt prompt, GenerateAsync (name q) ?fp]) (map ?g ns @ [?g n]))
      = concat (map (\<lambda>m. [GetSystemPrompt prompt, GenerateAsync m ?fp]) (ns @ [n]))"
  proof -
    have pt: "name (?g m) = m" if "m \<in> set ns" for m
    proof -
      from that have "m \<in> set (ns @ n # rest)" by simp
      then obtain p where p: "get_provider reg m = Some p"
        unfolding assms(3) [symmetric] by (auto split: option.splits)
      from registered_name [OF assms(1) p] p show ?thesis by simp
    qed
    have "concat (map ((\<lambda>q. [GetSystemPrompt prompt, GenerateAsync (name q) ?fp]) \<circ> ?g) ns)
        = concat (map (\<lambda>m. [GetSystemPrompt prompt, GenerateAsync m ?fp]) ns)"
      by (rule arg_cong [where f = concat], rule map_cong) (simp_all add: pt)
    then show ?thesis by (simp add: nm(2))
  qed
  have res: "route_request rules reg ctx gen prompt task_type =
           (concat (map (\<lambda>m. [GetSystemPrompt prompt, GenerateAsync m ?fp]) (ns @ [n])),
            Inr (dict_set response ''provider'' (VStr n)))"
    using run tr nm(2) by simp
  have "invoked (concat (map (\<lambda>m. [GetSystemPrompt prompt, GenerateAsync m ?fp]) (ns @ [n]))) = ns @ [n]"
    by (induction ns) auto
  with res show ?thesis by simp
qed

lemmas ordered_defs = ordered_rules_def ordered_registry_def stub_priority_def stub_def
  get_provider_def get_or_def scenario_generate_def scenario_identity_def
  get_system_prompt_def nonempty_def system_name_def

theorem route_request_first_success_wins_witness:
  "list_all (\<lambda>(k, p). name p = k) ordered_registry
   \<and> ordered_rules ''summarize'' = Some [''p0'', ''ghost'', ''p1'', ''p2'', ''p3'']
   \<and> [m \<leftarrow> [''p0'', ''ghost'', ''p1'', ''p2'', ''p3''].
         case get_provider ordered_registry m of None \<Rightarrow> False
         | Some p \<Rightarrow> truthy (get_or (cfg_enabled (config p)) (VBool True))]
       = [''p1''] @ ''p2'' # [''p3'']
   \<and> isl (scenario_generate (the (get_provider ordered_registry ''p1''))
            (get_system_prompt scenario_identity ''prompt''))
   \<and> scenario_generate (the (get_provider ordered_registry ''p2''))
        (get_system_prompt scenario_identity ''prompt'')
       = Inr [(''provider'', VStr ''backend''), (''text'', VStr ''OK'')]
   \<and> route_request ordered_rules ordered_registry scenario_identity scenario_generate
        ''prompt'' ''summarize''
       = ([GetSystemPrompt ''prompt'', GenerateAsync ''p1'' ''prompt'',
           GetSystemPrompt ''prompt'', GenerateAsync ''p2'' ''prompt''],
          Inr [(''provider'', VStr ''p2''), (''text'', VStr ''OK'')])
   \<and> invoked (fst (route_request ordered_rules ordered_registry scenario_identity
         scenario_generate ''prompt'' ''summarize'')) = [''p1'', ''p2'']"
proof -
  have h1: "list_all (\<lambda>(k, p). name p = k) ordered_registry"
    by (simp add: ordered_defs)
  have h2: "ordered_rules ''summarize'' = Some [''p0'', ''ghost'', ''p1'', ''p2'', ''p3'']"
    by (simp add: ordered_rules_def)
  have h3: "[m \<leftarrow> [''p0'', ''ghost'', ''p1'', ''p2'', ''p3''].
         case get_provider ordered_registry m of None \<Rightarrow> False
         | Some p \<Rightarrow> truthy (get_or (cfg_enabled (config p)) (VBool True))]
       = [''p1''] @ ''p2'' # [''p3'']"
    by (simp add: ordered_defs)
  have h4: "\<forall>m\<in>set [''p1'']. isl (scenario_generate (the (get_provider ordered_registry m))
            (get_system_prompt scenario_identity ''prompt''))"
    by (simp add: ordered_defs)
  have h5: "scenario_generate (the (get_provider ordered_registry ''p2''))
        (get_system_prompt scenario_identity ''prompt'')
       = Inr [(''provider'', VStr ''backend''), (''text'', VStr ''OK'')]"
    by (simp add: ordered_defs)
  have fp: "get_system_prompt scenario_identity ''prompt'' = ''prompt''"
    by (simp add: ordered_defs)
  note t = route_request_first_success_wins [where reg = ordered_registry and rules = ordered_rules
      and task_type = "''summarize''" and provider_seq = "[''p0'', ''ghost'', ''p1'', ''p2'', ''p3'']"
      and ns = "[''p1'']" and n = "''p2''" and rest = "[''p3'']" and gen = scenario_generate
      and ctx = scenario_identity and prompt = "''prompt''"
      and response = "[(''provider'', VStr ''backend''), (''text'', VStr ''OK'')]",
      OF h1 h2 h3 h4 h5]
  from h4 have h4': "isl (scenario_generate (the (get_provider ordered_registry ''p1''))
            (get_system_prompt scenario_identity ''prompt''))" by simp
  from t have r: "route_request ordered_rules ordered_registry scenario_identity scenario_generate
        ''prompt'' ''summarize''
       = ([GetSystemPrompt ''prompt'', GenerateAsync ''p1'' ''prompt'',
           GetSystemPrompt ''prompt'', GenerateAsync ''p2'' ''prompt''],
          Inr [(''provider'', VStr ''p2''), (''text'', VStr ''OK'')])"
    by (simp add: fp dict_set_def)
  from t have i: "invoked (fst (route_request ordered_rules ordered_registry scenario_identity
         scenario_generate ''prompt'' ''summarize'')) = [''p1'', ''p2'']"
    by simp
  from h1 h2 h3 h4' h5 r i show ?thesis by blast
qed

lemma try_providers_error:
  "snd (try_providers ctx gen prompt ps errs) = Inl e \<Longrightarrow> \<exists>m. e = NoAvailableProviderError m"
proof (induction ps arbitrary: errs)
  case Nil
  then show ?case by auto
next
  case (Cons a ps)
  show ?case
  proof (cases "gen a (get_system_prompt ctx prompt)")
    case (Inr response)
    with Cons.prems show ?thesis by (simp add: Let_def)
  next
    case (Inl x)
    with Cons.prems
    have "snd (try_providers ctx gen prompt ps (errs @ [name a @ '': '' @ str_exn x])) = Inl e"
      by (simp add: Let_def split: prod.splits)
    then show ?thesis by (rule Cons.IH)
  qed
qed

lemma route_request_error:
  "snd (route_request rules reg ctx gen prompt task_type) = Inl e \<Longrightarrow>
   (\<exists>m. e = NoAvailableProviderError m) \<or>
   (e = ValueError (''Task type '' @ [CHR 0x27] @ task_type @ [CHR 0x27]
                      @ '' is not a routable LLM task.'')
    \<and> fst (route_request rules reg ctx gen prompt task_type) = [])"
  by (auto simp: route_request_def split: option.splits if_splits dest: try_providers_error)

text \<open>
  Claim C3. When every candidate's \<open>generate_async\<close> fails, \<open>route_request\<close> calls each
  candidate once, in order, and raises \<open>NoAvailableProviderError\<close>; its text joins one reason
  per candidate (the candidate's name and the text of its exception), in the order of the
  attempts. Whatever the backends do, an error of such a request is a
  \<open>NoAvailableProviderError\<close>: the exception of a provider is never what the caller gets.
\<close>

theorem route_request_all_fail:
  assumes "provider_sequence rules task_type = Some provider_seq"
    and "providers_to_try reg provider_seq \<noteq> []"
    and "\<forall>p\<in>set (providers_to_try reg provider_seq). isl (gen p (get_system_prompt ctx prompt))"
  shows "route_request rules reg ctx gen prompt task_type =
           (concat (map (\<lambda>p. [GetSystemPrompt prompt,
                                GenerateAsync (name p) (get_system_prompt ctx prompt)])
                        (providers_to_try reg provider_seq)),
            Inl (NoAvailableProviderError (''All providers failed. Errors: '' @ join ''; ''
              (map (\<lambda>p. name p @ '': '' @ str_exn (projl (gen p (get_system_prompt ctx prompt))))
                   (providers_to_try reg provider_seq)))))
       \<and> (\<forall>g e. snd (route_request rules reg ctx g prompt task_type) = Inl e \<longrightarrow>
              (\<exists>m. e = NoAvailableProviderError m))"
proof -
  have "route_request rules reg ctx gen prompt task_type =
           (concat (map (\<lambda>p. [GetSystemPrompt prompt,
                                GenerateAsync (name p) (get_system_prompt ctx prompt)])
                        (providers_to_try reg provider_seq)),
            Inl (NoAvailableProviderError (''All providers failed. Errors: '' @ join ''; ''
              (map (\<lambda>p. name p @ '': '' @ str_exn (projl (gen p (get_system_prompt ctx prompt))))
                   (providers_to_try reg provider_seq)))))"
    using route_request_candidates [OF assms(1,2), of ctx gen prompt]
      try_providers_all_fail [where ps = "providers_to_try reg provider_seq" and gen = gen
        and ctx = ctx and prompt = prompt and errs = "[]"] assms(3)
    by simp
  moreover have "\<exists>m. e = NoAvailableProviderError m"
    if "snd (route_request rules reg ctx g prompt task_type) = Inl e" for g e
    using that route_request_candidates [OF assms(1,2), of ctx g prompt]
    by (auto dest: try_providers_error)
  ultimately show ?thesis by blast
qed

theorem route_request_all_fail_witness:
  "provider_sequence scenario_rules ''summarize'' = Some [''p1'', ''p2'']
   \<and> providers_to_try scenario_registry [''p1'', ''p2''] \<noteq> []
   \<and> route_request scenario_rules scenario_registry scenario_identity failing_generate
        ''prompt'' ''summarize''
       = ([GetSystemPrompt ''prompt'', GenerateAsync ''p1'' ''prompt'',
           GetSystemPrompt ''prompt'', GenerateAsync ''p2'' ''prompt''],
          Inl (NoAvailableProviderError
                 ''All providers failed. Errors: p1: down p1; p2: down p2''))"
proof -
  have h1: "provider_sequence scenario_rules ''summarize'' = Some [''p1'', ''p2'']"
    by (simp add: scenario_rules_def provider_sequence_def)
  have cands: "providers_to_try scenario_registry [''p1'', ''p2'']
                 = [stub ''p1'' None, stub ''p2'' (Some (VBool True))]"
    by (simp add: scenario_defs)
  have h2: "providers_to_try scenario_registry [''p1'', ''p2''] \<noteq> []"
    by (simp add: cands)
  have h3: "\<forall>p\<in>set (providers_to_try scenario_registry [''p1'', ''p2'']).
              isl (failing_generate p (get_system_prompt scenario_identity ''prompt''))"
    by (simp add: failing_generate_def)
  have fp: "get_system_prompt scenario_identity ''prompt'' = ''prompt''"
    by (simp add: scenario_defs)
  show ?thesis
    using h1 h2
      route_request_all_fail [where rules = scenario_rules and task_type = "''summarize''"
        and provider_seq = "[''p1'', ''p2'']" and reg = scenario_registry
        and gen = failing_generate and ctx = scenario_identity and prompt = "''prompt''",
        OF h1 h2 h3]
    by (simp add: cands fp stub_def failing_generate_def)
qed

lemma dict_get_dict_set: "dict_get (dict_set d k v) k dflt = v"
  by (simp add: dict_get_def dict_set_def update_conv')

lemma try_providers_success:
  "snd (try_providers ctx gen prompt ps errs) = Inr result \<Longrightarrow>
   \<exists>fs p rest response. ps = fs @ p # rest
      \<and> (\<forall>q\<in>set fs. isl (gen q (get_system_prompt ctx prompt)))
      \<and> gen p (get_system_prompt ctx prompt) = Inr response
      \<and> result = dict_set response ''provider'' (VStr (name p))"
proof (induction ps arbitrary: errs)
  case Nil
  then show ?case by simp
next
  case (Cons a ps)
  show ?case
  proof (cases "gen a (get_system_prompt ctx prompt)")
    case (Inr response)
    with Cons.prems have "result = dict_set response ''provider'' (VStr (name a))"
      by (simp add: Let_def)
    with Inr have "a # ps = [] @ a # ps \<and> (\<forall>q\<in>set []. isl (gen q (get_system_prompt ctx prompt)))
        \<and> gen a (get_system_prompt ctx prompt) = Inr response
        \<and> result = dict_set response ''provider'' (VStr (name a))"
      by simp
    then show ?thesis by blast
  next
    case (Inl e)
    with Cons.prems
    have "snd (try_providers ctx gen prompt ps (errs @ [name a @ '': '' @ str_exn e])) = Inr result"
      by (simp add: Let_def split: prod.splits)
    from Cons.IH [OF this] obtain fs p rest response where
      "ps = fs @ p # rest" "\<forall>q\<in>set fs. isl (gen q (get_system_prompt ctx prompt))"
      "gen p (get_system_prompt ctx prompt) = Inr response"
      "result = dict_set response ''provider'' (VStr (name p))"
      by blast
    with Inl have "a # ps = (a # fs) @ p # rest
        \<and> (\<forall>q\<in>set (a # fs). isl (gen q (get_system_prompt ctx prompt)))
        \<and> gen p (get_system_prompt ctx prompt) = Inr response
        \<and> result = dict_set response ''provider'' (VStr (name p))"
      by simp
    then show ?thesis by blast
  qed
qed

lemma providers_to_try_registered:
  "p \<in> set (providers_to_try reg provider_seq) \<Longrightarrow>
   \<exists>n\<in>set provider_seq. get_provider reg n = Some p \<and> truthy (enabled p)"
  by (auto simp: providers_to_try_def)

lemma route_request_success_candidates:
  "snd (route_request rules reg ctx gen prompt task_type) = Inr result \<Longrightarrow>
   \<exists>provider_seq. provider_sequence rules task_type = Some provider_seq
      \<and> snd (try_providers ctx gen prompt (providers_to_try reg provider_seq) []) = Inr result"
  by (auto simp: route_request_def split: option.splits if_splits)

text \<open>
  Claim C10. Whenever \<open>route_request\<close> returns, the value is the response of the first
  candidate whose \<open>generate_async\<close> succeeded with its \<open>provider\<close> field overwritten: the field
  is that candidate's name, under which the registry holds it, whatever the backend's
  response had there.
\<close>

theorem route_request_provider_field:
  assumes "list_all (\<lambda>(k, p). name p = k) reg"
    and "snd (route_request rules reg ctx gen prompt task_type) = Inr result"
  shows "\<exists>provider_seq fs p rest response.
           provider_sequence rules task_type = Some provider_seq
         \<and> providers_to_try reg provider_seq = fs @ p # rest
         \<and> (\<forall>q\<in>set fs. isl (gen q (get_system_prompt ctx prompt)))
         \<and> gen p (get_system_prompt ctx prompt) = Inr response
         \<and> get_provider reg (name p) = Some p
         \<and> result = dict_set response ''provider'' (VStr (name p))
         \<and> dict_get result ''provider'' dflt = VStr (name p)"
proof -
  from route_request_success_candidates [OF assms(2)] obtain provider_seq where
    seq: "provider_sequence rules task_type = Some provider_seq"
    and run: "snd (try_providers ctx gen prompt (providers_to_try reg provider_seq) []) = Inr result"
    by blast
  from try_providers_success [OF run] obtain fs p rest response where
    split: "providers_to_try reg provider_seq = fs @ p # rest"
    and fails: "\<forall>q\<in>set fs. isl (gen q (get_system_prompt ctx prompt))"
    and ok: "gen p (get_system_prompt ctx prompt) = Inr response"
    and res: "result = dict_set response ''provider'' (VStr (name p))"
    by blast
  from split have "p \<in> set (providers_to_try reg provider_seq)" by simp
  from providers_to_try_registered [OF this] obtain n where n: "get_provider reg n = Some p"
    by blast
  then have "(n, p) \<in> set reg"
    by (simp add: get_provider_def map_of_SomeD)
  with assms(1) have "name p = n" by (auto simp: list_all_iff)
  with n have reg: "get_provider reg (name p) = Some p" by simp
  have "dict_get result ''provider'' dflt = VStr (name p)"
    unfolding res by (rule dict_get_dict_set)
  with seq split fails ok reg res show ?thesis by blast
qed



theorem route_request_provider_field_witness:
  "list_all (\<lambda>(k, p). name p = k) scenario_registry
   \<and> snd (route_request scenario_rules scenario_registry scenario_identity scenario_generate
        ''prompt'' ''summarize'') = Inr [(''provider'', VStr ''p2''), (''text'', VStr ''OK'')]
   \<and> scenario_generate (stub ''p2'' (Some (VBool True))) ''prompt''
       = Inr [(''provider'', VStr ''backend''), (''text'', VStr ''OK'')]
   \<and> (\<exists>provider_seq fs p rest response.
           provider_sequence scenario_rules ''summarize'' = Some provider_seq
         \<and> providers_to_try scenario_registry provider_seq = fs @ p # rest
         \<and> (\<forall>q\<in>set fs. isl (scenario_generate q (get_system_prompt scenario_identity ''prompt'')))
         \<and> scenario_generate p (get_system_prompt scenario_identity ''prompt'') = Inr response
         \<and> get_provider scenario_registry (name p) = Some p
         \<and> [(''provider'', VStr ''p2''), (''text'', VStr ''OK'')]
             = dict_set response ''provider'' (VStr (name p))
         \<and> dict_get [(''provider'', VStr ''p2''), (''text'', VStr ''OK'')] ''provider'' VNone
             = VStr (name p))"
proof -
  have h1: "list_all (\<lambda>(k, p). name p = k) scenario_registry"
    by (simp add: scenario_registry_def stub_def)
  have h2: "snd (route_request scenario_rules scenario_registry scenario_identity scenario_generate
        ''prompt'' ''summarize'') = Inr [(''provider'', VStr ''p2''), (''text'', VStr ''OK'')]"
    by (simp add: route_request_def provider_sequence_def scenario_defs dict_set_def Let_def)
  have h3: "scenario_generate (stub ''p2'' (Some (VBool True))) ''prompt''
       = Inr [(''provider'', VStr ''backend''), (''text'', VStr ''OK'')]"
    by (simp add: scenario_defs)
  note ex = route_request_provider_field [where reg = scenario_registry and rules = scenario_rules
    and ctx = scenario_identity and gen = scenario_generate and prompt = "''prompt''"
    and task_type = "''summarize''" and dflt = VNone, OF h1 h2]
  from h1 h2 h3 ex show ?thesis by blast
qed

section \<open>The failover loop of route\_request\_stream\<close>

lemma stream_step_done:
  "snd (gs p (get_system_prompt ctx prompt)) = None \<Longrightarrow>
   stream_providers ctx gs prompt (p # ps) errs =
     ([GetSystemPrompt prompt, GenerateStreamAsync (name p) (get_system_prompt ctx prompt)]
        @ map (\<lambda>chunk. Yield (dict_set chunk ''provider'' (VStr (name p))))
            (fst (gs p (get_system_prompt ctx prompt))),
      None)"
  by (cases "gs p (get_system_prompt ctx prompt)") (simp add: Let_def)

lemma stream_step_raise:
  "snd (gs p (get_system_prompt ctx prompt)) = Some e \<Longrightarrow>
   stream_providers ctx gs prompt (p # ps) errs =
     ([GetSystemPrompt prompt, GenerateStreamAsync (name p) (get_system_prompt ctx prompt)]
        @ map (\<lambda>chunk. Yield (dict_set chunk ''provider'' (VStr (name p))))
            (fst (gs p (get_system_prompt ctx prompt)))
        @ fst (stream_providers ctx gs prompt ps (errs @ [name p @ '': '' @ str_exn e])),
      snd (stream_providers ctx gs prompt ps (errs @ [name p @ '': '' @ str_exn e])))"
  by (cases "gs p (get_system_prompt ctx prompt)") (simp add: Let_def split: prod.splits)

declare stream_providers.simps(2) [simp del]

lemma stream_providers_until_done:
  "\<forall>q\<in>set fs. snd (gs q (get_system_prompt ctx prompt)) \<noteq> None \<Longrightarrow>
   snd (gs p (get_system_prompt ctx prompt)) = None \<Longrightarrow>
   stream_providers ctx gs prompt (fs @ p # rest) errs =
     (concat (map (\<lambda>q. [GetSystemPrompt prompt,
                          GenerateStreamAsync (name q) (get_system_prompt ctx prompt)]
                        @ map (\<lambda>chunk. Yield (dict_set chunk ''provider'' (VStr (name q))))
                            (fst (gs q (get_system_prompt ctx prompt)))) (fs @ [p])),
      None)"
proof (induction fs arbitrary: errs)
  case Nil
  then show ?case by (simp add: stream_step_done)
next
  case (Cons f fs)
  then obtain e where e: "snd (gs f (get_system_prompt ctx prompt)) = Some e"
    by auto
  from Cons.prems have rest: "\<forall>q\<in>set fs. snd (gs q (get_system_prompt ctx prompt)) \<noteq> None"
    by simp
  show ?case
    using Cons.IH [OF rest Cons.prems(2), of "errs @ [name f @ '': '' @ str_exn e]"]
    by (simp add: stream_step_raise [where gs = gs and p = f and e = e, OF e])
qed

lemma stream_providers_all_raise:
  "\<forall>q\<in>set ps. snd (gs q (get_system_prompt ctx prompt)) \<noteq> None \<Longrightarrow>
   stream_providers ctx gs prompt ps errs =
     (concat (map (\<lambda>q. [GetSystemPrompt prompt,
                          GenerateStreamAsync (name q) (get_system_prompt ctx prompt)]
                        @ map (\<lambda>chunk. Yield (dict_set chunk ''provider'' (VStr (name q))))
                            (fst (gs q (get_system_prompt ctx prompt)))) ps),
      Some (NoAvailableProviderError (''All streaming providers failed. Errors: '' @ join ''; ''
        (errs @ map (\<lambda>q. name q @ '': '' @ str_exn (the (snd (gs q (get_system_prompt ctx prompt))))) ps))))"
proof (induction ps arbitrary: errs)
  case Nil
  then show ?case by simp
next
  case (Cons f fs)
  then obtain e where e: "snd (gs f (get_system_prompt ctx prompt)) = Some e"
    by auto
  from Cons.prems have rest: "\<forall>q\<in>set fs. snd (gs q (get_system_prompt ctx prompt)) \<noteq> None"
    by simp
  show ?case
    using e Cons.IH [OF rest, of "errs @ [name f @ '': '' @ str_exn e]"]
    by (simp add: stream_step_raise [where gs = gs and p = f and e = e, OF e])
qed

lemma route_request_stream_candidates:
  "provider_sequence rules task_type = Some provider_seq \<Longrightarrow>
   streaming_providers_to_try reg provider_seq \<noteq> [] \<Longrightarrow>
   route_request_stream rules reg ctx gs prompt task_type =
     stream_providers ctx gs prompt (streaming_providers_to_try reg provider_seq) []"
  by (auto simp: route_request_stream_def streaming_providers_to_try_def)

text \<open>
  The loop itself, for any generator: it goes on to the next candidate exactly when the
  generator of the current one raises, and stops at the first that ends without raising.
\<close>

lemma stream_failover_on_raise:
  assumes "provider_sequence rules task_type = Some provider_seq"
    and "streaming_providers_to_try reg provider_seq = fs @ p # rest"
    and "\<forall>q\<in>set fs. snd (gs q (get_system_prompt ctx prompt)) \<noteq> None"
    and "snd (gs p (get_system_prompt ctx prompt)) = None"
  shows "route_request_stream rules reg ctx gs prompt task_type =
     (concat (map (\<lambda>q. [GetSystemPrompt prompt,
                          GenerateStreamAsync (name q) (get_system_prompt ctx prompt)]
                        @ map (\<lambda>chunk. Yield (dict_set chunk ''provider'' (VStr (name q))))
                            (fst (gs q (get_system_prompt ctx prompt)))) (fs @ [p])),
      None)"
proof -
  have ne: "streaming_providers_to_try reg provider_seq \<noteq> []"
    using assms(2) by simp
  show ?thesis
    using route_request_stream_candidates [OF assms(1) ne, of ctx gs prompt] assms(2-4)
      stream_providers_until_done [where fs = fs and gs = gs and ctx = ctx and prompt = prompt
        and p = p and rest = rest and errs = "[]"]
    by simp
qed

lemmas stream_defs = streaming_providers_to_try_def scenario_stream_def stream_chunk_def

section \<open>The prompt decoration hook\<close>

lemma try_step_fail:
  "gen a (get_system_prompt ctx prompt) = Inl e \<Longrightarrow>
   try_providers ctx gen prompt (a # ps) errs =
     ([GetSystemPrompt prompt, GenerateAsync (name a) (get_system_prompt ctx prompt)]
        @ fst (try_providers ctx gen prompt ps (errs @ [name a @ '': '' @ str_exn e])),
      snd (try_providers ctx gen prompt ps (errs @ [name a @ '': '' @ str_exn e])))"
  by (simp add: Let_def split: prod.splits)

lemma try_providers_trace:
  "fst (try_providers ctx gen prompt ps errs) =
     concat (map (\<lambda>n. [GetSystemPrompt prompt, GenerateAsync n (get_system_prompt ctx prompt)])
       (invoked (fst (try_providers ctx gen prompt ps errs))))"
proof (induction ps arbitrary: errs)
  case Nil
  then show ?case by simp
next
  case (Cons a ps)
  show ?case
  proof (cases "gen a (get_system_prompt ctx prompt)")
    case (Inr response)
    then show ?thesis by (simp add: Let_def)
  next
    case (Inl e)
    show ?thesis
      using Cons.IH [of "errs @ [name a @ '': '' @ str_exn e]"]
      by (simp add: try_step_fail [where gen = gen and a = a and e = e, OF Inl]
            del: try_providers.simps)
  qed
qed

lemma calls_only_append: "calls_only (xs @ ys) = calls_only xs @ calls_only ys"
  by (induction xs rule: calls_only.induct) auto

lemma calls_only_yields [simp]: "calls_only (map (\<lambda>c. Yield (f c)) cs) = []"
  by (induction cs) auto

lemma invoked_yields [simp]: "invoked (map (\<lambda>c. Yield (f c)) cs) = []"
  by (induction cs) auto

lemma stream_providers_trace:
  "calls_only (fst (stream_providers ctx gs prompt ps errs)) =
     concat (map (\<lambda>n. [GetSystemPrompt prompt,
                          GenerateStreamAsync n (get_system_prompt ctx prompt)])
       (invoked (fst (stream_providers ctx gs prompt ps errs))))"
proof (induction ps arbitrary: errs)
  case Nil
  then show ?case by simp
next
  case (Cons a ps)
  show ?case
  proof (cases "snd (gs a (get_system_prompt ctx prompt))")
    case None
    then show ?thesis
      by (simp add: stream_step_done calls_only_append invoked_append)
  next
    case (Some e)
    show ?thesis
      using Cons.IH [of "errs @ [name a @ '': '' @ str_exn e]"]
      by (simp add: stream_step_raise [where gs = gs and p = a and e = e, OF Some]
            calls_only_append invoked_append)
  qed
qed

text \<open>
  Claim C4, as the code has it. The hook \<open>get_system_prompt\<close> is called inside the failover
  loop: once for each provider attempt, immediately before the attempt, always with the raw
  prompt of the request. A request with \<open>k\<close> attempts calls it \<open>k\<close> times and a request that
  fails before its first attempt never calls it. The hook is a function of the identity
  data and the raw prompt, so every attempt of a request is given the same decorated
  prompt. This holds for \<open>route_request\<close> and for \<open>route_request_stream\<close>.
\<close>

theorem get_system_prompt_once_per_attempt:
  "fst (route_request rules reg ctx gen prompt task_type) =
     concat (map (\<lambda>n. [GetSystemPrompt prompt, GenerateAsync n (get_system_prompt ctx prompt)])
       (invoked (fst (route_request rules reg ctx gen prompt task_type))))
   \<and> calls_only (fst (route_request_stream rules reg ctx gs prompt task_type)) =
     concat (map (\<lambda>n. [GetSystemPrompt prompt,
                          GenerateStreamAsync n (get_system_prompt ctx prompt)])
       (invoked (fst (route_request_stream rules reg ctx gs prompt task_type))))"
proof
  show "fst (route_request rules reg ctx gen prompt task_type) =
     concat (map (\<lambda>n. [GetSystemPrompt prompt, GenerateAsync n (get_system_prompt ctx prompt)])
       (invoked (fst (route_request rules reg ctx gen prompt task_type))))"
    using try_providers_trace [of ctx gen prompt _ "[]"]
    by (simp add: route_request_def split: option.splits)
  show "calls_only (fst (route_request_stream rules reg ctx gs prompt task_type)) =
     concat (map (\<lambda>n. [GetSystemPrompt prompt,
                          GenerateStreamAsync n (get_system_prompt ctx prompt)])
       (invoked (fst (route_request_stream rules reg ctx gs prompt task_type))))"
    using stream_providers_trace [of ctx gs prompt _ "[]"]
    by (simp add: route_request_stream_def split: option.splits)
qed

text \<open>
  The claim as the specification words it fails: in the scenario \<open>p1\<close> fails and \<open>p2\<close>
  answers, and the hook has been called twice for the one request.
\<close>

theorem get_system_prompt_once_counterexample:
  "length [e \<leftarrow> fst (route_request scenario_rules scenario_registry scenario_identity
              scenario_generate ''prompt'' ''summarize''). e = GetSystemPrompt ''prompt''] = 2
   \<and> length [e \<leftarrow> fst (route_request_stream scenario_rules scenario_registry scenario_identity
              scenario_stream ''prompt'' ''summarize''). e = GetSystemPrompt ''prompt''] = 2"
  by (simp add: route_request_def route_request_stream_def provider_sequence_def scenario_defs
        stream_defs stream_providers.simps(2) dict_set_def Let_def)

section \<open>Health aggregation\<close>

lemma checked_records:
  "map (\<lambda>(i, p). f i p (map g ps ! i)) (enumerate 0 ps) = map (\<lambda>(i, p). f i p (g p)) (enumerate 0 ps)"
  by (rule map_cong) (auto simp: in_set_enumerate_eq)

lemma get_provider_statuses_records:
  "snd (snd (get_provider_statuses reg probe now)) =
     map (\<lambda>(i, p). enabled_record now i p (safe_check probe p))
       (enumerate 0 [p \<leftarrow> map snd reg. truthy (enabled p)])
     @ map (\<lambda>(k, p). disabled_record now k p)
         (enumerate (length [p \<leftarrow> map snd reg. truthy (enabled p)])
            [p \<leftarrow> map snd reg. \<not> truthy (enabled p)])"
  by (cases "[p \<leftarrow> map snd reg. truthy (enabled p)] = []")
     (simp_all add: get_provider_statuses_def Let_def checked_records del: filter_map)

lemma get_provider_statuses_summary:
  "fst (snd (get_provider_statuses reg probe now)) =
     \<lparr>total_providers = length reg,
      enabled_count = length [p \<leftarrow> map snd reg. truthy (enabled p)],
      disabled_count = length [p \<leftarrow> map snd reg. \<not> truthy (enabled p)],
      errors = length [s \<leftarrow> snd (snd (get_provider_statuses reg probe now)).
                         status s = VStr ''Error'']\<rparr>"
  by (simp add: get_provider_statuses_def Let_def)

lemma get_provider_statuses_probes:
  "fst (get_provider_statuses reg probe now) =
     map (\<lambda>p. CheckHealth (name p)) [p \<leftarrow> map snd reg. truthy (enabled p)]"
  by (simp add: get_provider_statuses_def Let_def)

lemma rec_name_enabled_record [simp]: "rec_name (enabled_record now i p v) = name p"
  by (cases v) (simp_all add: enabled_record_def Let_def)

lemma rec_name_disabled_record [simp]: "rec_name (disabled_record now k p) = name p"
  by (simp add: disabled_record_def)

lemma map_enumerate_snd:
  "map (\<lambda>(i, p). f p) (enumerate n ps) = map f ps"
proof -
  have "map (\<lambda>(i, p). f p) (enumerate n ps) = map f (map snd (enumerate n ps))"
    unfolding map_map by (rule map_cong) auto
  then show ?thesis by (simp only: map_snd_enumerate)
qed

lemma record_names:
  "map rec_name (snd (snd (get_provider_statuses reg probe now))) =
     map name ([p \<leftarrow> map snd reg. truthy (enabled p)] @ [p \<leftarrow> map snd reg. \<not> truthy (enabled p)])"
proof -
  have a: "map (rec_name \<circ> (\<lambda>(i, p). enabled_record now i p (safe_check probe p))) xs
             = map (\<lambda>(i, p). name p) xs" for xs
    by (rule map_cong) auto
  have b: "map (rec_name \<circ> (\<lambda>(k, p). disabled_record now k p)) xs
             = map (\<lambda>(i, p). name p) xs" for xs
    by (rule map_cong) auto
  show ?thesis
    by (simp add: get_provider_statuses_records a b map_enumerate_snd)
qed

lemma record_count:
  "length (snd (snd (get_provider_statuses reg probe now))) = length reg"
proof -
  have "length (snd (snd (get_provider_statuses reg probe now))) =
          length [p \<leftarrow> map snd reg. truthy (enabled p)]
          + length [p \<leftarrow> map snd reg. \<not> truthy (enabled p)]"
    by (simp add: get_provider_statuses_records)
  also have "\<dots> = length (map snd reg)"
    by (rule sum_length_filter_compl)
  finally show ?thesis by simp
qed

lemma enabled_record_nth:
  assumes "i < length [p \<leftarrow> map snd reg. truthy (enabled p)]"
  shows "snd (snd (get_provider_statuses reg probe now)) ! i =
           enabled_record now i ([p \<leftarrow> map snd reg. truthy (enabled p)] ! i)
             (safe_check probe ([p \<leftarrow> map snd reg. truthy (enabled p)] ! i))"
  using assms
  by (simp add: get_provider_statuses_records nth_append nth_enumerate_eq)

text \<open>
  Claim C7. \<open>get_provider_statuses\<close> always returns, with one record for each provider of
  the registry (the enabled ones first, then the disabled ones). A probe that raises gives
  its provider a record with status \<open>Error\<close> and the text of the exception in the details,
  and the other records are produced all the same. The \<open>errors\<close> count of the summary is
  the number of records with status \<open>Error\<close> in the returned list.
\<close>

theorem get_provider_statuses_isolates_probes:
  "length (snd (snd (get_provider_statuses reg probe now))) = length reg
   \<and> map rec_name (snd (snd (get_provider_statuses reg probe now))) =
       map name ([p \<leftarrow> map snd reg. truthy (enabled p)] @ [p \<leftarrow> map snd reg. \<not> truthy (enabled p)])
   \<and> (\<forall>i e. i < length [p \<leftarrow> map snd reg. truthy (enabled p)]
         \<and> probe ([p \<leftarrow> map snd reg. truthy (enabled p)] ! i) = Inl e \<longrightarrow>
         rec_name (snd (snd (get_provider_statuses reg probe now)) ! i)
           = name ([p \<leftarrow> map snd reg. truthy (enabled p)] ! i)
         \<and> status (snd (snd (get_provider_statuses reg probe now)) ! i) = VStr ''Error''
         \<and> details (snd (snd (get_provider_statuses reg probe now)) ! i)
           = VStr (''Health check failed: '' @ str_exn e))
   \<and> errors (fst (snd (get_provider_statuses reg probe now))) =
       length [s \<leftarrow> snd (snd (get_provider_statuses reg probe now)). status s = VStr ''Error'']"
proof (intro conjI allI impI)
  show "length (snd (snd (get_provider_statuses reg probe now))) = length reg"
    by (rule record_count)
  show "map rec_name (snd (snd (get_provider_statuses reg probe now))) =
       map name ([p \<leftarrow> map snd reg. truthy (enabled p)] @ [p \<leftarrow> map snd reg. \<not> truthy (enabled p)])"
    by (rule record_names)
  show "errors (fst (snd (get_provider_statuses reg probe now))) =
       length [s \<leftarrow> snd (snd (get_provider_statuses reg probe now)). status s = VStr ''Error'']"
    by (subst get_provider_statuses_summary) simp
next
  fix i e
  assume h: "i < length [p \<leftarrow> map snd reg. truthy (enabled p)]
         \<and> probe ([p \<leftarrow> map snd reg. truthy (enabled p)] ! i) = Inl e"
  then have r: "snd (snd (get_provider_statuses reg probe now)) ! i =
      enabled_record now i ([p \<leftarrow> map snd reg. truthy (enabled p)] ! i) (HExc e)"
    by (simp add: enabled_record_nth safe_check_def)
  show "rec_name (snd (snd (get_provider_statuses reg probe now)) ! i)
           = name ([p \<leftarrow> map snd reg. truthy (enabled p)] ! i)"
    unfolding r by simp
  show "status (snd (snd (get_provider_statuses reg probe now)) ! i) = VStr ''Error''"
    unfolding r by (simp add: enabled_record_def)
  show "details (snd (snd (get_provider_statuses reg probe now)) ! i)
           = VStr (''Health check failed: '' @ str_exn e)"
    unfolding r by (simp add: enabled_record_def)
qed

lemmas health_defs = health_registry_def health_probe_def stub_def enabled_def
  get_provider_statuses_def safe_check_def enabled_record_def disabled_record_def
  dict_get_def Let_def

theorem get_provider_statuses_isolates_probes_witness:
  "1 < length [p \<leftarrow> map snd health_registry. truthy (enabled p)]
   \<and> health_probe ([p \<leftarrow> map snd health_registry. truthy (enabled p)] ! 1) = Inl (OtherError ''boom'')
   \<and> length (snd (snd (get_provider_statuses health_registry health_probe clock))) = 3
   \<and> map rec_name (snd (snd (get_provider_statuses health_registry health_probe clock)))
       = [''a'', ''b'', ''c'']
   \<and> map status (snd (snd (get_provider_statuses health_registry health_probe clock)))
       = [VStr ''Active'', VStr ''Error'', VStr ''Active'']
   \<and> details (snd (snd (get_provider_statuses health_registry health_probe clock)) ! 1)
       = VStr ''Health check failed: boom''
   \<and> errors (fst (snd (get_provider_statuses health_registry health_probe clock))) = 1"
proof -
  have h1: "1 < length [p \<leftarrow> map snd health_registry. truthy (enabled p)]"
    by (simp add: health_defs)
  have h2: "health_probe ([p \<leftarrow> map snd health_registry. truthy (enabled p)] ! 1)
              = Inl (OtherError ''boom'')"
    by (simp add: health_defs)
  have st: "map status (snd (snd (get_provider_statuses health_registry health_probe clock)))
       = [VStr ''Active'', VStr ''Error'', VStr ''Active'']"
    by (simp add: health_defs)
  note t = get_provider_statuses_isolates_probes [of health_registry health_probe clock]
  from t have len: "length (snd (snd (get_provider_statuses health_registry health_probe clock)))
      = length health_registry" by blast
  from t have names: "map rec_name (snd (snd (get_provider_statuses health_registry health_probe clock)))
      = map name ([p \<leftarrow> map snd health_registry. truthy (enabled p)]
          @ [p \<leftarrow> map snd health_registry. \<not> truthy (enabled p)])" by blast
  from t h1 h2 have det: "details (snd (snd (get_provider_statuses health_registry health_probe clock)) ! 1)
       = VStr (''Health check failed: '' @ str_exn (OtherError ''boom''))" by blast
  from t have err: "errors (fst (snd (get_provider_statuses health_registry health_probe clock))) =
       length [s \<leftarrow> snd (snd (get_provider_statuses health_registry health_probe clock)).
                 status s = VStr ''Error'']" by blast
  have cnt: "length [s \<leftarrow> snd (snd (get_provider_statuses health_registry health_probe clock)).
                 status s = VStr ''Error''] = 1"
    by (simp add: health_defs)
  have names': "map name ([p \<leftarrow> map snd health_registry. truthy (enabled p)]
          @ [p \<leftarrow> map snd health_registry. \<not> truthy (enabled p)]) = [''a'', ''b'', ''c'']"
    by (simp add: health_defs)
  show ?thesis
    using h1 h2 st len names det err cnt names'
    by (simp add: health_registry_def)
qed

lemma status_enabled_record:
  "status (enabled_record now i p v) =
     (case v of HExc e \<Rightarrow> VStr ''Error''
      | HDict d \<Rightarrow> dict_get d ''status'' (VStr ''Unknown'')
      | HOther \<Rightarrow> VStr ''Unknown'')"
  by (cases v) (simp_all add: enabled_record_def Let_def)

lemma disabled_record_nth:
  assumes "j < length [p \<leftarrow> map snd reg. \<not> truthy (enabled p)]"
  shows "snd (snd (get_provider_statuses reg probe now))
           ! (length [p \<leftarrow> map snd reg. truthy (enabled p)] + j) =
         disabled_record now (length [p \<leftarrow> map snd reg. truthy (enabled p)] + j)
           ([p \<leftarrow> map snd reg. \<not> truthy (enabled p)] ! j)"
  using assms
  by (simp add: get_provider_statuses_records nth_append nth_enumerate_eq del: filter_map)

lemma status_of_probe:
  "status (enabled_record now i p (safe_check probe p)) =
     (case probe p of
        Inl e \<Rightarrow> VStr ''Error''
      | Inr (HExc e) \<Rightarrow> VStr ''Error''
      | Inr HOther \<Rightarrow> VStr ''Unknown''
      | Inr (HDict d) \<Rightarrow> (case map_of d ''status'' of None \<Rightarrow> VStr ''Unknown'' | Some v \<Rightarrow> v))"
  by (simp add: status_enabled_record safe_check_def dict_get_def
           split: sum.splits health_value.splits option.splits)

text \<open>
  Claim C8, as the code has it. The record at the position of an enabled provider carries
  that provider's name, and its status is decided by that provider's own probe: \<open>Error\<close>
  when the probe raised or handed back an exception, \<open>Unknown\<close> when it returned something
  that is not a dictionary or a dictionary without a \<open>status\<close> key, and otherwise the value
  under the \<open>status\<close> key of the probe's dictionary, copied as it is, whether that value is
  in the domain of the specification or not. The records of the disabled providers follow
  and have status \<open>Disabled\<close>. So the status of every record is in the domain or is the
  value its own provider's probe returned.
\<close>

theorem record_status_from_probe:
  "(\<forall>i. i < length [p \<leftarrow> map snd reg. truthy (enabled p)] \<longrightarrow>
        rec_name (snd (snd (get_provider_statuses reg probe now)) ! i)
          = name ([p \<leftarrow> map snd reg. truthy (enabled p)] ! i)
      \<and> status (snd (snd (get_provider_statuses reg probe now)) ! i) =
          (case probe ([p \<leftarrow> map snd reg. truthy (enabled p)] ! i) of
             Inl e \<Rightarrow> VStr ''Error''
           | Inr (HExc e) \<Rightarrow> VStr ''Error''
           | Inr HOther \<Rightarrow> VStr ''Unknown''
           | Inr (HDict d) \<Rightarrow>
               (case map_of d ''status'' of None \<Rightarrow> VStr ''Unknown'' | Some v \<Rightarrow> v)))
   \<and> (\<forall>j. j < length [p \<leftarrow> map snd reg. \<not> truthy (enabled p)] \<longrightarrow>
        rec_name (snd (snd (get_provider_statuses reg probe now))
                    ! (length [p \<leftarrow> map snd reg. truthy (enabled p)] + j))
          = name ([p \<leftarrow> map snd reg. \<not> truthy (enabled p)] ! j)
      \<and> status (snd (snd (get_provider_statuses reg probe now))
                  ! (length [p \<leftarrow> map snd reg. truthy (enabled p)] + j))
          = VStr ''Disabled'')
   \<and> length (snd (snd (get_provider_statuses reg probe now)))
       = length [p \<leftarrow> map snd reg. truthy (enabled p)]
         + length [p \<leftarrow> map snd reg. \<not> truthy (enabled p)]
   \<and> (\<forall>k. k < length (snd (snd (get_provider_statuses reg probe now))) \<longrightarrow>
        status (snd (snd (get_provider_statuses reg probe now)) ! k) \<in> status_domain
        \<or> (\<exists>d v. k < length [p \<leftarrow> map snd reg. truthy (enabled p)]
              \<and> probe ([p \<leftarrow> map snd reg. truthy (enabled p)] ! k) = Inr (HDict d)
              \<and> map_of d ''status'' = Some v
              \<and> status (snd (snd (get_provider_statuses reg probe now)) ! k) = v))"
proof (intro conjI allI impI)
  let ?en = "[p \<leftarrow> map snd reg. truthy (enabled p)]"
  let ?dis = "[p \<leftarrow> map snd reg. \<not> truthy (enabled p)]"
  let ?recs = "snd (snd (get_provider_statuses reg probe now))"
  show len: "length ?recs = length ?en + length ?dis"
    by (simp add: get_provider_statuses_records del: filter_map)
  {
    fix i
    assume i: "i < length ?en"
    from i show "rec_name (?recs ! i) = name (?en ! i)"
      by (simp only: enabled_record_nth rec_name_enabled_record)
    from i show "status (?recs ! i) =
          (case probe (?en ! i) of
             Inl e \<Rightarrow> VStr ''Error''
           | Inr (HExc e) \<Rightarrow> VStr ''Error''
           | Inr HOther \<Rightarrow> VStr ''Unknown''
           | Inr (HDict d) \<Rightarrow>
               (case map_of d ''status'' of None \<Rightarrow> VStr ''Unknown'' | Some v \<Rightarrow> v))"
      by (simp only: enabled_record_nth status_of_probe)
  }
  {
    fix j
    assume j: "j < length ?dis"
    from j show "rec_name (?recs ! (length ?en + j)) = name (?dis ! j)"
      by (simp only: disabled_record_nth rec_name_disabled_record)
    from j show "status (?recs ! (length ?en + j)) = VStr ''Disabled''"
      by (simp only: disabled_record_nth) (simp add: disabled_record_def)
  }
  {
    fix k
    assume k: "k < length ?recs"
    show "status (?recs ! k) \<in> status_domain
        \<or> (\<exists>d v. k < length ?en \<and> probe (?en ! k) = Inr (HDict d)
              \<and> map_of d ''status'' = Some v \<and> status (?recs ! k) = v)"
    proof (cases "k < length ?en")
      case True
      then have st: "status (?recs ! k) = status (enabled_record now k (?en ! k)
          (safe_check probe (?en ! k)))"
        by (simp only: enabled_record_nth)
      show ?thesis
      proof (cases "probe (?en ! k)")
        case (Inl e)
        then show ?thesis
          unfolding st by (simp add: status_of_probe status_domain_def)
      next
        case (Inr v)
        show ?thesis
        proof (cases v)
          case (HDict d)
          show ?thesis
          proof (cases "map_of d ''status''")
            case None
            with Inr HDict show ?thesis
              unfolding st by (simp add: status_of_probe status_domain_def)
          next
            case (Some w)
            with Inr HDict True show ?thesis
              unfolding st by (simp add: status_of_probe)
          qed
        next
          case (HExc e)
          with Inr show ?thesis
            unfolding st by (simp add: status_of_probe status_domain_def)
        next
          case HOther
          with Inr show ?thesis
            unfolding st by (simp add: status_of_probe status_domain_def)
        qed
      qed
    next
      case False
      with k len have "k - length ?en < length ?dis" by simp
      then have "status (?recs ! (length ?en + (k - length ?en))) = VStr ''Disabled''"
        by (simp only: disabled_record_nth) (simp add: disabled_record_def)
      with False have "status (?recs ! k) = VStr ''Disabled''" by simp
      then show ?thesis by (simp add: status_domain_def)
    qed
  }
qed

lemmas malformed_defs = health_registry_def malformed_probe_def stub_def enabled_def
  get_provider_statuses_def safe_check_def enabled_record_def disabled_record_def
  dict_get_def Let_def

text \<open>
  The claim as the specification words it fails: a probe that returns the status
  \<open>Degraded\<close> gets a record with that status, which is outside the domain.
\<close>

theorem record_status_domain_counterexample:
  "status (snd (snd (get_provider_statuses health_registry malformed_probe clock)) ! 2)
     = VStr ''Degraded''
   \<and> VStr ''Degraded'' \<notin> status_domain"
  by (simp add: malformed_defs status_domain_def)

lemmas mixed_defs = mixed_registry_def health_registry_def malformed_probe_def stub_def
  enabled_def get_provider_statuses_def safe_check_def enabled_record_def disabled_record_def
  dict_get_def Let_def

theorem record_status_from_probe_witness:
  "3 < length [p \<leftarrow> map snd mixed_registry. truthy (enabled p)]
   \<and> malformed_probe ([p \<leftarrow> map snd mixed_registry. truthy (enabled p)] ! 3)
       = Inr (HDict [(''status'', VStr ''Offline''), (''details'', VStr ''unreachable'')])
   \<and> status (snd (snd (get_provider_statuses mixed_registry malformed_probe clock)) ! 3)
       = VStr ''Offline''
   \<and> rec_name (snd (snd (get_provider_statuses mixed_registry malformed_probe clock)) ! 3) = ''d''
   \<and> 0 < length [p \<leftarrow> map snd mixed_registry. \<not> truthy (enabled p)]
   \<and> status (snd (snd (get_provider_statuses mixed_registry malformed_probe clock)) ! 4)
       = VStr ''Disabled''
   \<and> map rec_name (snd (snd (get_provider_statuses mixed_registry malformed_probe clock)))
       = [''a'', ''b'', ''c'', ''d'', ''e'']
   \<and> map status (snd (snd (get_provider_statuses mixed_registry malformed_probe clock)))
       = [VStr ''Unknown'', VStr ''Unknown'', VStr ''Degraded'', VStr ''Offline'', VStr ''Disabled'']"
proof -
  have en: "[p \<leftarrow> map snd mixed_registry. truthy (enabled p)]
      = [stub ''a'' None, stub ''b'' None, stub ''c'' None, stub ''d'' None]"
    by (simp add: mixed_registry_def health_registry_def stub_def enabled_def)
  have dis: "[p \<leftarrow> map snd mixed_registry. \<not> truthy (enabled p)] = [stub ''e'' (Some (VBool False))]"
    by (simp add: mixed_registry_def health_registry_def stub_def enabled_def)
  have h3: "3 < length [p \<leftarrow> map snd mixed_registry. truthy (enabled p)]"
    unfolding en by simp
  have p3: "malformed_probe ([p \<leftarrow> map snd mixed_registry. truthy (enabled p)] ! 3)
       = Inr (HDict [(''status'', VStr ''Offline''), (''details'', VStr ''unreachable'')])"
    unfolding en by (simp add: malformed_probe_def stub_def)
  have h0: "0 < length [p \<leftarrow> map snd mixed_registry. \<not> truthy (enabled p)]"
    unfolding dis by simp
  note t = record_status_from_probe [of mixed_registry malformed_probe clock]
  note t3 = t [THEN conjunct1, rule_format, OF h3]
  note t4 = t [THEN conjunct2, THEN conjunct1, rule_format, OF h0]
  from t3 have s3: "status (snd (snd (get_provider_statuses mixed_registry malformed_probe clock)) ! 3)
       = VStr ''Offline''"
    unfolding p3 by simp
  from t3 have n3: "rec_name (snd (snd (get_provider_statuses mixed_registry malformed_probe clock)) ! 3)
       = ''d''"
    unfolding en by (simp add: stub_def)
  from t4 have s4: "status (snd (snd (get_provider_statuses mixed_registry malformed_probe clock)) ! 4)
       = VStr ''Disabled''"
    unfolding en by (simp add: eval_nat_numeral)
  have names: "map rec_name (snd (snd (get_provider_statuses mixed_registry malformed_probe clock)))
       = [''a'', ''b'', ''c'', ''d'', ''e'']"
    by (simp add: mixed_defs)
  have sts: "map status (snd (snd (get_provider_statuses mixed_registry malformed_probe clock)))
       = [VStr ''Unknown'', VStr ''Unknown'', VStr ''Degraded'', VStr ''Offline'', VStr ''Disabled'']"
    by (simp add: mixed_defs)
  from h3 p3 s3 n3 h0 s4 names sts show ?thesis by (intro conjI)
qed

section \<open>Disabled providers\<close>

lemma init_gemini_instance:
  "init_gemini env n c = Inr p \<Longrightarrow> name p = n \<and> config p = c"
  by (auto simp: init_gemini_def Let_def split: if_splits option.splits)

lemma init_ollama_instance:
  "init_ollama env n c = Inr p \<Longrightarrow> name p = n \<and> config p = c"
  by (auto simp: init_ollama_def Let_def split: if_splits)

lemma provider_class_instance:
  "PROVIDER_CLASSES t = Some provider_class \<Longrightarrow> provider_class env n c = Inr p \<Longrightarrow>
   name p = n \<and> config p = c"
  by (auto simp: PROVIDER_CLASSES_def split: if_splits
           dest: init_gemini_instance init_ollama_instance)

lemma set_update_subset: "set (AList.update k v al) \<subseteq> insert (k, v) (set al)"
  by (induction al) auto

lemma load_entry_ok:
  assumes "list_all loaded_ok reg"
  shows "list_all loaded_ok (load_entry env reg e)"
proof (cases e)
  case NotADict
  with assms show ?thesis by simp
next
  case (Entry c)
  have upd: "list_all loaded_ok (AList.update n p reg)"
    if "name p = n" "config p = c" "truthy (get_or (cfg_enabled c) (VBool True))" for n p
  proof -
    from that have "loaded_ok (n, p)"
      by (simp add: loaded_ok_def enabled_def get_or_def)
    with assms set_update_subset [of n p reg] show ?thesis
      by (auto simp: list_all_iff)
  qed
  show ?thesis
    using assms upd Entry
    by (auto split: option.splits sum.splits dest: provider_class_instance)
qed

lemma foldl_load_entry_ok:
  "list_all loaded_ok reg \<Longrightarrow> list_all loaded_ok (foldl (load_entry env) reg es)"
  by (induction es arbitrary: reg) (simp_all add: load_entry_ok)

lemma load_providers_ok: "list_all loaded_ok (load_providers env yaml)"
  by (cases yaml) (simp_all add: load_providers_def foldl_load_entry_ok)

lemma load_providers_no_disabled:
  "[p \<leftarrow> map snd (load_providers env yaml). \<not> truthy (enabled p)] = []"
  using load_providers_ok [of env yaml]
  by (auto simp: filter_empty_conv list_all_iff loaded_ok_def)

lemma load_providers_names:
  "list_all (\<lambda>(k, p). name p = k) (load_providers env yaml)"
  using load_providers_ok [of env yaml]
  by (auto simp: list_all_iff loaded_ok_def)

lemma candidates_enabled:
  "p \<in> set (providers_to_try reg provider_seq) \<Longrightarrow> truthy (enabled p)"
  by (auto simp: providers_to_try_def)

lemma streaming_candidates_enabled:
  "p \<in> set (streaming_providers_to_try reg provider_seq) \<Longrightarrow>
   truthy (enabled p) \<and> supports_streaming p"
  by (auto simp: streaming_providers_to_try_def)

lemma disabled_never_probed:
  "CheckHealth n \<in> set (fst (get_provider_statuses reg probe now)) \<Longrightarrow>
   \<exists>p\<in>set (map snd reg). name p = n \<and> truthy (enabled p)"
  by (auto simp: get_provider_statuses_probes)

lemma disabled_in_registry_reported:
  "p \<in> set (map snd reg) \<Longrightarrow> \<not> truthy (enabled p) \<Longrightarrow>
   \<exists>r\<in>set (snd (snd (get_provider_statuses reg probe now))).
      rec_name r = name p \<and> status r = VStr ''Disabled''"
proof -
  assume "p \<in> set (map snd reg)" "\<not> truthy (enabled p)"
  then have "p \<in> set [p \<leftarrow> map snd reg. \<not> truthy (enabled p)]" by simp
  then obtain j where j: "j < length [p \<leftarrow> map snd reg. \<not> truthy (enabled p)]"
      "[p \<leftarrow> map snd reg. \<not> truthy (enabled p)] ! j = p"
    by (metis in_set_conv_nth)
  let ?n = "length [p \<leftarrow> map snd reg. truthy (enabled p)]"
  from j have "(?n + j, p) \<in> set (enumerate ?n [p \<leftarrow> map snd reg. \<not> truthy (enabled p)])"
    by (simp add: in_set_enumerate_eq)
  then have "disabled_record now (?n + j) p \<in> set (snd (snd (get_provider_statuses reg probe now)))"
    unfolding get_provider_statuses_records by force
  then show ?thesis
    by (rule bexI [rotated]) (simp add: disabled_record_def)
qed

text \<open>
  Claim C5. The part of the claim about candidate lists holds (\<open>candidates_enabled\<close>,
  \<open>streaming_candidates_enabled\<close>), and no probe runs on a disabled provider
  (\<open>disabled_never_probed\<close>). But \<open>load_providers\<close> never puts an entry with
  \<open>enabled: false\<close> into the registry, so the branch of \<open>get_provider_statuses\<close> that writes
  \<open>Disabled\<close> records has nothing to report: for the example configuration, with an enabled
  Gemini entry and a disabled Ollama entry, the registry holds the Gemini provider alone,
  the status list has one record and none for \<open>ollama-failover\<close>, and the summary counts
  no disabled provider.
\<close>

theorem disabled_provider_not_reported:
  "load_providers example_environment example_providers_yaml =
     [(''gemini-primary'',
       \<lparr>name = ''gemini-primary'', config = gemini_entry,
        backend = GeminiProvider ''GEMINI_API_KEY'' ''secret'' ''gemini-1.5-flash-latest''\<rparr>)]
   \<and> get_provider (load_providers example_environment example_providers_yaml) ''ollama-failover''
       = None
   \<and> map rec_name (snd (snd (get_provider_statuses
         (load_providers example_environment example_providers_yaml) probe now)))
       = [''gemini-primary'']
   \<and> [r \<leftarrow> snd (snd (get_provider_statuses
         (load_providers example_environment example_providers_yaml) probe now)).
         status r = VStr ''Disabled'' \<and> rec_name r = ''ollama-failover''] = []
   \<and> disabled_count (fst (snd (get_provider_statuses
         (load_providers example_environment example_providers_yaml) probe now))) = 0
   \<and> total_providers (fst (snd (get_provider_statuses
         (load_providers example_environment example_providers_yaml) probe now))) = 1"
proof -
  have reg: "load_providers example_environment example_providers_yaml =
     [(''gemini-primary'',
       \<lparr>name = ''gemini-primary'', config = gemini_entry,
        backend = GeminiProvider ''GEMINI_API_KEY'' ''secret'' ''gemini-1.5-flash-latest''\<rparr>)]"
    by (simp add: load_providers_def example_providers_yaml_def example_environment_def
          gemini_entry_def ollama_entry_def PROVIDER_CLASSES_def init_gemini_def get_or_def
          Let_def)
  have en: "truthy (enabled \<lparr>name = ''gemini-primary'', config = gemini_entry,
        backend = GeminiProvider ''GEMINI_API_KEY'' ''secret'' ''gemini-1.5-flash-latest''\<rparr>)"
    by (simp add: enabled_def gemini_entry_def)
  have names: "map rec_name (snd (snd (get_provider_statuses
         (load_providers example_environment example_providers_yaml) probe now)))
       = [''gemini-primary'']"
    by (simp add: record_names reg en)
  have none: "[r \<leftarrow> snd (snd (get_provider_statuses
         (load_providers example_environment example_providers_yaml) probe now)).
         status r = VStr ''Disabled'' \<and> rec_name r = ''ollama-failover''] = []"
    by (simp add: get_provider_statuses_records reg en)
  show ?thesis
    using names none
    by (simp add: reg get_provider_def get_provider_statuses_summary en)
qed

section \<open>The streams of the concrete providers\<close>

lemma is_error_chunk_simps [simp]:
  "\<not> is_error_chunk (stream_chunk token)"
  "is_error_chunk (error_chunk p e)"
  by (simp_all add: is_error_chunk_def stream_chunk_def error_chunk_def dict_get_def)

lemma gemini_never_raises: "snd (gemini_generate_stream_async p s) = None"
  by (induction s) (auto split: prod.splits)

lemma gemini_chunks:
  "fst (gemini_generate_stream_async p s) =
     map (\<lambda>text. stream_chunk (VStr text)) (source_items s)
     @ (case source_failure s of None \<Rightarrow> [] | Some e \<Rightarrow> [error_chunk p e])"
  by (induction s) (auto split: prod.splits)

lemma ollama_never_raises: "snd (ollama_generate_stream_async p s) = None"
  by (induction p s rule: ollama_generate_stream_async.induct)
     (auto simp: Let_def split: prod.splits)

lemma ollama_chunks:
  "source_failure s = Some e \<Longrightarrow>
   \<exists>tokens x. fst (ollama_generate_stream_async p s) = map stream_chunk tokens @ [error_chunk p x]
      \<and> (x = e \<or> (\<exists>msg. NonObject msg \<in> set (source_items s) \<and> x = OtherError msg))"
proof (induction p s rule: ollama_generate_stream_async.induct)
  case (1 p)
  then show ?case by simp
next
  case (2 p e')
  then have "fst (ollama_generate_stream_async p (Fail e')) = map stream_chunk [] @ [error_chunk p e]"
    by simp
  then show ?case by blast
next
  case (3 p s)
  then show ?case by auto
next
  case (4 p s)
  then show ?case by auto
next
  case (5 p chunk_data s)
  from 5 obtain tokens x where
    out: "fst (ollama_generate_stream_async p s) = map stream_chunk tokens @ [error_chunk p x]"
    and x: "x = e \<or> (\<exists>msg. NonObject msg \<in> set (source_items s) \<and> x = OtherError msg)"
    by auto
  show ?case
  proof (cases "truthy (dict_get chunk_data ''response'' (VStr []))")
    case True
    with out have "fst (ollama_generate_stream_async p (Item (Object chunk_data) s)) =
        map stream_chunk (dict_get chunk_data ''response'' (VStr []) # tokens) @ [error_chunk p x]"
      by (auto simp: Let_def split: prod.splits)
    with x show ?thesis by fastforce
  next
    case False
    with out have "fst (ollama_generate_stream_async p (Item (Object chunk_data) s)) =
        map stream_chunk tokens @ [error_chunk p x]"
      by (auto simp: Let_def split: prod.splits)
    with x show ?thesis by fastforce
  qed
next
  case (6 p msg s)
  have "fst (ollama_generate_stream_async p (Item (NonObject msg) s)) =
      map stream_chunk [] @ [error_chunk p (OtherError msg)]"
    by simp
  moreover have "NonObject msg \<in> set (source_items (Item (NonObject msg) s))"
    by simp
  ultimately show ?case by blast
qed

lemma filter_error_chunks:
  "[c \<leftarrow> map stream_chunk tokens @ [error_chunk p x]. is_error_chunk c] = [error_chunk p x]"
  by (induction tokens) simp_all

text \<open>
  Claim C9. Neither \<open>GeminiProvider.generate_stream_async\<close> nor
  \<open>OllamaProvider.generate_stream_async\<close> ever raises. When the backend fails, at the start
  or after any number of chunks, the generator yields the chunks delivered so far, then
  one element of type \<open>error\<close>, and ends; that element is the only one of its type and it is
  the last. For Gemini its detail is the backend's exception; for Ollama it is the
  backend's exception, or the \<open>AttributeError\<close> of an earlier line that was JSON but not an
  object, at which the generator had already stopped in the same way.
\<close>

theorem provider_stream_failure_in_band:
  assumes "source_failure s = Some e" and "source_failure t = Some e'"
  shows "gemini_generate_stream_async p s =
           (map (\<lambda>text. stream_chunk (VStr text)) (source_items s) @ [error_chunk p e], None)
       \<and> [c \<leftarrow> fst (gemini_generate_stream_async p s). is_error_chunk c] = [error_chunk p e]
       \<and> snd (ollama_generate_stream_async q t) = None
       \<and> (\<exists>tokens x.
             fst (ollama_generate_stream_async q t) = map stream_chunk tokens @ [error_chunk q x]
           \<and> [c \<leftarrow> fst (ollama_generate_stream_async q t). is_error_chunk c] = [error_chunk q x]
           \<and> (x = e' \<or> (\<exists>msg. NonObject msg \<in> set (source_items t) \<and> x = OtherError msg)))
       \<and> (\<forall>s'. snd (gemini_generate_stream_async p s') = None)
       \<and> (\<forall>t'. snd (ollama_generate_stream_async q t') = None)"
proof -
  have g: "gemini_generate_stream_async p s =
           (map (\<lambda>text. stream_chunk (VStr text)) (source_items s) @ [error_chunk p e], None)"
    using gemini_chunks [of p s] gemini_never_raises [of p s] assms(1)
    by (simp add: prod_eq_iff)
  have gf: "[c \<leftarrow> fst (gemini_generate_stream_async p s). is_error_chunk c] = [error_chunk p e]"
    unfolding g fst_conv
    using filter_error_chunks [of "map VStr (source_items s)" p e]
    by (simp add: comp_def)
  from ollama_chunks [OF assms(2), of q] obtain tokens x where
    out: "fst (ollama_generate_stream_async q t) = map stream_chunk tokens @ [error_chunk q x]"
    and x: "x = e' \<or> (\<exists>msg. NonObject msg \<in> set (source_items t) \<and> x = OtherError msg)"
    by blast
  have "[c \<leftarrow> fst (ollama_generate_stream_async q t). is_error_chunk c] = [error_chunk q x]"
    unfolding out by (rule filter_error_chunks)
  with out x have o: "\<exists>tokens x.
             fst (ollama_generate_stream_async q t) = map stream_chunk tokens @ [error_chunk q x]
           \<and> [c \<leftarrow> fst (ollama_generate_stream_async q t). is_error_chunk c] = [error_chunk q x]
           \<and> (x = e' \<or> (\<exists>msg. NonObject msg \<in> set (source_items t) \<and> x = OtherError msg))"
    by blast
  from g gf o gemini_never_raises ollama_never_raises show ?thesis by blast
qed

theorem provider_stream_failure_in_band_witness:
  "source_failure gemini_response = Some (OtherError ''quota exceeded'')
   \<and> source_failure ollama_response = Some (OtherError ''connection reset'')
   \<and> gemini_generate_stream_async (stub ''g'' None) gemini_response =
       ([[(''type'', VStr ''stream_chunk''), (''token'', VStr ''Hel'')],
         [(''type'', VStr ''stream_chunk''), (''token'', VStr ''lo'')],
         [(''type'', VStr ''error''), (''detail'', VStr ''Error from g: quota exceeded'')]], None)
   \<and> ollama_generate_stream_async (stub ''o'' None) ollama_response =
       ([[(''type'', VStr ''stream_chunk''), (''token'', VStr ''Hi'')],
         [(''type'', VStr ''error''), (''detail'', VStr ''Error from o: connection reset'')]], None)"
proof -
  have h1: "source_failure gemini_response = Some (OtherError ''quota exceeded'')"
    by (simp add: gemini_response_def)
  have h2: "source_failure ollama_response = Some (OtherError ''connection reset'')"
    by (simp add: ollama_response_def)
  have o: "ollama_generate_stream_async (stub ''o'' None) ollama_response =
       ([[(''type'', VStr ''stream_chunk''), (''token'', VStr ''Hi'')],
         [(''type'', VStr ''error''), (''detail'', VStr ''Error from o: connection reset'')]], None)"
    by (simp add: ollama_response_def stream_chunk_def error_chunk_def stub_def dict_get_def)
  from provider_stream_failure_in_band [OF h1 h2, of "stub ''g'' None" "stub ''o'' None"]
  have "gemini_generate_stream_async (stub ''g'' None) gemini_response =
      (map (\<lambda>text. stream_chunk (VStr text)) (source_items gemini_response)
         @ [error_chunk (stub ''g'' None) (OtherError ''quota exceeded'')], None)"
    by blast
  then have g: "gemini_generate_stream_async (stub ''g'' None) gemini_response =
       ([[(''type'', VStr ''stream_chunk''), (''token'', VStr ''Hel'')],
         [(''type'', VStr ''stream_chunk''), (''token'', VStr ''lo'')],
         [(''type'', VStr ''error''), (''detail'', VStr ''Error from g: quota exceeded'')]], None)"
    by (simp add: gemini_response_def stream_chunk_def error_chunk_def stub_def)
  from h1 h2 g o show ?thesis by blast
qed


text \<open>
  Since the two concrete generators never raise, a candidate of one of these classes ends
  the streaming request: the router forwards its chunks, an error element included, and
  tries nobody else.
\<close>

lemma stream_providers_concrete:
  assumes "gs p (get_system_prompt ctx prompt) = gemini_generate_stream_async p s
           \<or> gs p (get_system_prompt ctx prompt) = ollama_generate_stream_async p t"
  shows "stream_providers ctx gs prompt (p # rest) errs =
     ([GetSystemPrompt prompt, GenerateStreamAsync (name p) (get_system_prompt ctx prompt)]
        @ map (\<lambda>chunk. Yield (dict_set chunk ''provider'' (VStr (name p))))
            (fst (gs p (get_system_prompt ctx prompt))),
      None)"
proof -
  from assms have "snd (gs p (get_system_prompt ctx prompt)) = None"
    using gemini_never_raises [of p s] ollama_never_raises [of p t] by auto
  then show ?thesis by (rule stream_step_done)
qed

section \<open>Streaming with the shipped providers\<close>

lemma init_gemini_class: "init_gemini env n c = Inr p \<Longrightarrow> shipped_class p"
  by (auto simp: init_gemini_def shipped_class_def Let_def split: if_splits option.splits)

lemma init_ollama_class: "init_ollama env n c = Inr p \<Longrightarrow> shipped_class p"
  by (auto simp: init_ollama_def shipped_class_def Let_def split: if_splits)

lemma provider_class_shipped:
  "PROVIDER_CLASSES t = Some provider_class \<Longrightarrow> provider_class env n c = Inr p \<Longrightarrow>
   shipped_class p"
  by (auto simp: PROVIDER_CLASSES_def split: if_splits dest: init_gemini_class init_ollama_class)

lemma load_entry_shipped:
  assumes "list_all (\<lambda>(k, p). shipped_class p) reg"
  shows "list_all (\<lambda>(k, p). shipped_class p) (load_entry env reg e)"
proof (cases e)
  case NotADict
  with assms show ?thesis by simp
next
  case (Entry c)
  have upd: "list_all (\<lambda>(k, p). shipped_class p) (AList.update n p reg)" if "shipped_class p" for n p
    using that assms set_update_subset [of n p reg] by (auto simp: list_all_iff)
  show ?thesis
    using assms upd Entry
    by (auto split: option.splits sum.splits dest: provider_class_shipped)
qed

lemma foldl_load_entry_shipped:
  "list_all (\<lambda>(k, p). shipped_class p) reg \<Longrightarrow>
   list_all (\<lambda>(k, p). shipped_class p) (foldl (load_entry env) reg es)"
  by (induction es arbitrary: reg) (simp_all add: load_entry_shipped)

lemma load_providers_shipped:
  "list_all (\<lambda>(k, p). shipped_class p) (load_providers env yaml)"
  by (cases yaml) (simp_all add: load_providers_def foldl_load_entry_shipped)

lemma generate_stream_async_never_raises:
  "shipped_class p \<Longrightarrow> snd (generate_stream_async gemini_backend ollama_backend other p q) = None"
  by (cases "backend p")
     (simp_all add: generate_stream_async_def shipped_class_def gemini_never_raises
        ollama_never_raises)

lemma streaming_candidate_registered:
  "p \<in> set (streaming_providers_to_try reg provider_seq) \<Longrightarrow> p \<in> set (map snd reg)"
proof -
  assume "p \<in> set (streaming_providers_to_try reg provider_seq)"
  then obtain n where "get_provider reg n = Some p"
    by (auto simp: streaming_providers_to_try_def)
  then have "(n, p) \<in> set reg"
    by (simp add: get_provider_def map_of_SomeD)
  then show ?thesis by force
qed

text \<open>
  Whatever the backends do, a streaming request over a registry that \<open>load_providers\<close> has
  built makes one attempt, with the first candidate, and ends without raising: the
  \<open>except\<close> branch of \<open>route_request_stream\<close> is never taken.
\<close>

lemma shipped_stream_single_attempt:
  assumes "provider_sequence rules task_type = Some provider_seq"
    and "streaming_providers_to_try (load_providers env yaml) provider_seq = p # rest"
  shows "route_request_stream rules (load_providers env yaml) ctx
           (generate_stream_async gemini_backend ollama_backend other) prompt task_type =
     ([GetSystemPrompt prompt, GenerateStreamAsync (name p) (get_system_prompt ctx prompt)]
        @ map (\<lambda>chunk. Yield (dict_set chunk ''provider'' (VStr (name p))))
            (fst (generate_stream_async gemini_backend ollama_backend other p
                    (get_system_prompt ctx prompt))),
      None)"
proof -
  have "p \<in> set (streaming_providers_to_try (load_providers env yaml) provider_seq)"
    using assms(2) by simp
  then have "p \<in> set (map snd (load_providers env yaml))"
    by (rule streaming_candidate_registered)
  with load_providers_shipped [of env yaml] have "shipped_class p"
    by (auto simp: list_all_iff)
  then have ends: "snd (generate_stream_async gemini_backend ollama_backend other p
                     (get_system_prompt ctx prompt)) = None"
    by (rule generate_stream_async_never_raises)
  have ne: "streaming_providers_to_try (load_providers env yaml) provider_seq \<noteq> []"
    using assms(2) by simp
  show ?thesis
    unfolding route_request_stream_candidates [OF assms(1) ne] assms(2)
    using ends by (rule stream_step_done)
qed

text \<open>
  Claim C2. The claim has the router go on to the next streaming-capable candidate when
  the chosen one fails before its first chunk. The router has the loop for it, but both
  shipped generators report every failure, also one before the first chunk, as an element
  of the stream and end normally, so the router never sees a failure. With the hard-coded
  routing table and both providers loaded and enabled, a Gemini backend that refuses the
  request makes \<open>route_request_stream\<close> forward the error element of \<open>gemini-primary\<close> and end:
  \<open>ollama-failover\<close>, the next streaming-capable candidate, whose backend would answer, is
  never called.
\<close>

theorem route_request_stream_no_failover:
  "map fst (load_providers shipped_environment shipped_providers_yaml)
     = [''gemini-primary'', ''ollama-failover'']
   \<and> provider_sequence (load_routing_rules RoutingFileNotFound) ''chat''
       = Some [''gemini-primary'', ''ollama-failover'']
   \<and> map name (streaming_providers_to_try
         (load_providers shipped_environment shipped_providers_yaml)
         [''gemini-primary'', ''ollama-failover''])
       = [''gemini-primary'', ''ollama-failover'']
   \<and> generate_stream_async gemini_down ollama_up no_other
         (the (get_provider (load_providers shipped_environment shipped_providers_yaml)
                 ''ollama-failover'')) ''hello''
       = ([[(''type'', VStr ''stream_chunk''), (''token'', VStr ''Hi'')]], None)
   \<and> route_request_stream (load_routing_rules RoutingFileNotFound)
         (load_providers shipped_environment shipped_providers_yaml) scenario_identity
         (generate_stream_async gemini_down ollama_up no_other) ''hello'' ''chat''
       = ([GetSystemPrompt ''hello'', GenerateStreamAsync ''gemini-primary'' ''hello'',
           Yield [(''type'', VStr ''error''),
                  (''detail'', VStr ''Error from gemini-primary: 503 unavailable''),
                  (''provider'', VStr ''gemini-primary'')]],
          None)
   \<and> invoked (fst (route_request_stream (load_routing_rules RoutingFileNotFound)
         (load_providers shipped_environment shipped_providers_yaml) scenario_identity
         (generate_stream_async gemini_down ollama_up no_other) ''hello'' ''chat''))
       = [''gemini-primary'']"
proof -
  have reg: "load_providers shipped_environment shipped_providers_yaml =
     [(''gemini-primary'',
       \<lparr>name = ''gemini-primary'', config = gemini_entry,
        backend = GeminiProvider ''GEMINI_API_KEY'' ''secret'' ''gemini-1.5-flash-latest''\<rparr>),
      (''ollama-failover'',
       \<lparr>name = ''ollama-failover'', config = ollama_enabled_entry,
        backend = OllamaProvider ''OLLAMA_API_URL'' ''http://localhost:11434'' ''llama3''\<rparr>)]"
    by (simp add: load_providers_def shipped_providers_yaml_def shipped_environment_def
          gemini_entry_def ollama_enabled_entry_def PROVIDER_CLASSES_def init_gemini_def
          init_ollama_def get_or_def Let_def)
  have seq: "provider_sequence (load_routing_rules RoutingFileNotFound) ''chat''
       = Some [''gemini-primary'', ''ollama-failover'']"
    by (simp add: provider_sequence_def load_routing_rules_def default_rules_def)
  have cands: "streaming_providers_to_try
         (load_providers shipped_environment shipped_providers_yaml)
         [''gemini-primary'', ''ollama-failover'']
       = map snd (load_providers shipped_environment shipped_providers_yaml)"
    unfolding reg
    by (simp add: streaming_providers_to_try_def get_provider_def enabled_def gemini_entry_def
          ollama_enabled_entry_def)
  have fp: "get_system_prompt scenario_identity ''hello'' = ''hello''"
    by (simp add: scenario_identity_def get_system_prompt_def nonempty_def system_name_def
          get_or_def)
  have ollama: "generate_stream_async gemini_down ollama_up no_other
         (the (get_provider (load_providers shipped_environment shipped_providers_yaml)
                 ''ollama-failover'')) ''hello''
       = ([[(''type'', VStr ''stream_chunk''), (''token'', VStr ''Hi'')]], None)"
    unfolding reg
    by (simp add: get_provider_def generate_stream_async_def ollama_up_def stream_chunk_def
          dict_get_def)
  have run: "route_request_stream (load_routing_rules RoutingFileNotFound)
         (load_providers shipped_environment shipped_providers_yaml) scenario_identity
         (generate_stream_async gemini_down ollama_up no_other) ''hello'' ''chat''
       = ([GetSystemPrompt ''hello'', GenerateStreamAsync ''gemini-primary'' ''hello'',
           Yield [(''type'', VStr ''error''),
                  (''detail'', VStr ''Error from gemini-primary: 503 unavailable''),
                  (''provider'', VStr ''gemini-primary'')]],
          None)"
  proof -
    have ne: "streaming_providers_to_try
         (load_providers shipped_environment shipped_providers_yaml)
         [''gemini-primary'', ''ollama-failover''] \<noteq> []"
      unfolding cands unfolding reg by simp
    show ?thesis
      unfolding route_request_stream_candidates [OF seq ne] cands
      unfolding reg
      by (simp add: stream_providers.simps(2) fp generate_stream_async_def gemini_down_def
            error_chunk_def dict_set_def Let_def)
  qed
  have inv: "invoked (fst (route_request_stream (load_routing_rules RoutingFileNotFound)
         (load_providers shipped_environment shipped_providers_yaml) scenario_identity
         (generate_stream_async gemini_down ollama_up no_other) ''hello'' ''chat''))
       = [''gemini-primary'']"
    unfolding run by simp
  have names: "map name (streaming_providers_to_try
         (load_providers shipped_environment shipped_providers_yaml)
         [''gemini-primary'', ''ollama-failover''])
       = [''gemini-primary'', ''ollama-failover'']"
    unfolding cands unfolding reg by simp
  have keys: "map fst (load_providers shipped_environment shipped_providers_yaml)
     = [''gemini-primary'', ''ollama-failover'']"
    unfolding reg by simp
  from keys seq names ollama run inv show ?thesis by blast
qed

end
